theory Spec2Isabelle
  imports Complex_Main "HOL-Library.Sublist"
begin

section \<open>Text\<close>

text \<open>
  A Python \<open>str\<close> is modelled as a \<^typ>\<open>string\<close>, each \<^typ>\<open>char\<close> read as the
  code point of the same number (0 to 255). On these code points \<open>str.lower\<close>,
  \<open>str.isspace\<close> and the classes \<open>\w\<close> and \<open>\s\<close> of the \<open>re\<close> module are the
  functions below. Characters above 255 occur only in the fixed texts that the modules
  emit and never inspect; there they stand as their UTF-8 bytes. Logging calls and the
  \<open>timestamp\<close> fields (the clock) are left out of the model: every method is modelled
  on an object whose \<open>logger\<close> is in place.
\<close>

definition code :: "char \<Rightarrow> nat" where
  "code c = of_char c"

definition is_upper :: "char \<Rightarrow> bool" where
  "is_upper c = ((65 \<le> code c \<and> code c \<le> 90) \<or> (192 \<le> code c \<and> code c \<le> 222 \<and> code c \<noteq> 215))"

definition lower_char :: "char \<Rightarrow> char" where
  "lower_char c = (if is_upper c then char_of (code c + 32) else c)"

definition lower :: "string \<Rightarrow> string" where
  "lower s = map lower_char s"

definition is_space :: "char \<Rightarrow> bool" where
  "is_space c = ((9 \<le> code c \<and> code c \<le> 13) \<or> (28 \<le> code c \<and> code c \<le> 32)
     \<or> code c = 133 \<or> code c = 160)"

definition is_word :: "char \<Rightarrow> bool" where
  "is_word c = ((48 \<le> code c \<and> code c \<le> 57) \<or> (65 \<le> code c \<and> code c \<le> 90) \<or> code c = 95
     \<or> (97 \<le> code c \<and> code c \<le> 122)
     \<or> code c = 170 \<or> code c = 178 \<or> code c = 179 \<or> code c = 181 \<or> code c = 185
     \<or> code c = 186 \<or> (188 \<le> code c \<and> code c \<le> 190)
     \<or> (192 \<le> code c \<and> code c \<le> 214) \<or> (216 \<le> code c \<and> code c \<le> 246) \<or> 248 \<le> code c)"

text \<open>\<open>s.startswith(k)\<close> and the substring test \<open>k in s\<close>.\<close>

fun startswith :: "string \<Rightarrow> string \<Rightarrow> bool" where
  "startswith s [] = True"
| "startswith [] (k # ks) = False"
| "startswith (c # cs) (k # ks) = (c = k \<and> startswith cs ks)"

fun py_in :: "string \<Rightarrow> string \<Rightarrow> bool" where
  "py_in k [] = (k = [])"
| "py_in k (c # cs) = (startswith (c # cs) k \<or> py_in k cs)"

text \<open>\<open>any(w in q for w in ws)\<close>.\<close>

fun any_in :: "string list \<Rightarrow> string \<Rightarrow> bool" where
  "any_in [] q = False"
| "any_in (w # ws) q = (py_in w q \<or> any_in ws q)"

text \<open>\<open>str.strip()\<close>: leading and trailing whitespace is removed.\<close>

definition strip :: "string \<Rightarrow> string" where
  "strip s = rev (dropWhile is_space (rev (dropWhile is_space s)))"

text \<open>Characters of the emitted texts that a string literal cannot hold.\<close>

definition nl :: string where
  "nl = [CHR 0x0A]"

definition apostrophe :: string where
  "apostrophe = [CHR 0x27]"

definition bullet :: string where
  "bullet = [CHR 0xE2, CHR 0x80, CHR 0xA2]"

definition magnifier :: string where
  "magnifier = [CHR 0xF0, CHR 0x9F, CHR 0x94, CHR 0x8D]"

definition brain :: string where
  "brain = [CHR 0xF0, CHR 0x9F, CHR 0xA7, CHR 0xA0]"

definition high_voltage :: string where
  "high_voltage = [CHR 0xE2, CHR 0x9A, CHR 0xA1]"

definition robot_face :: string where
  "robot_face = [CHR 0xF0, CHR 0x9F, CHR 0xA4, CHR 0x96]"

definition speech_balloon :: string where
  "speech_balloon = [CHR 0xF0, CHR 0x9F, CHR 0x92, CHR 0xAC]"

text \<open>
  The dictionaries that the modules return share one shape; a key that a dictionary does
  not have is \<open>None\<close>.
\<close>

record 'd response =
  success :: bool
  data :: "'d option"
  source :: string
  query_field :: "string option"
  message :: "string option"
  error :: "string option"

datatype exn = TypeError | KeyError string | AttributeError

section \<open>Regular expressions of the routing table\<close>

text \<open>
  The fragment of Python's \<open>re\<close> syntax that the routing patterns use: literal text,
  the word boundary \<open>\b\<close>, \<open>\s+\<close>, \<open>.*\<close>, alternation and concatenation.
  A match is followed from a position of the text, given as the character before the
  position (if any) and the text from the position on; \<open>ends\<close> lists the positions at
  which a match of the expression that starts there can end.
\<close>

datatype cls = Space | Dot

datatype regex = Lit string | WordB | Plus cls | Star cls | Alts "regex list" | Cat "regex list"

type_synonym pos = "char option \<times> string"

fun in_cls :: "cls \<Rightarrow> char \<Rightarrow> bool" where
  "in_cls Space c = is_space c"
| "in_cls Dot c = (c \<noteq> CHR 0x0A)"

fun word_before :: "char option \<Rightarrow> bool" where
  "word_before None = False"
| "word_before (Some c) = is_word c"

fun word_after :: "string \<Rightarrow> bool" where
  "word_after [] = False"
| "word_after (c # cs) = is_word c"

fun advance :: "string \<Rightarrow> pos \<Rightarrow> pos" where
  "advance [] p = p"
| "advance (k # ks) (b, []) = (b, [])"
| "advance (k # ks) (b, c # cs) = advance ks (Some c, cs)"

fun run :: "cls \<Rightarrow> pos \<Rightarrow> pos list" where
  "run k (b, []) = [(b, [])]"
| "run k (b, c # cs) = (b, c # cs) # (if in_cls k c then run k (Some c, cs) else [])"

fun ends :: "regex \<Rightarrow> pos \<Rightarrow> pos list" where
  "ends (Lit w) p = (if startswith (snd p) w then [advance w p] else [])"
| "ends WordB p = (if word_before (fst p) \<noteq> word_after (snd p) then [p] else [])"
| "ends (Star k) p = run k p"
| "ends (Plus k) p = tl (run k p)"
| "ends (Alts rs) p = concat (map (\<lambda>r. ends r p) rs)"
| "ends (Cat []) p = [p]"
| "ends (Cat (r # rs)) p = concat (map (ends (Cat rs)) (ends r p))"

text \<open>
  \<open>re.search\<close>: is there a match that starts at some position of the text, the end of
  the text included.
\<close>

fun search_from :: "regex \<Rightarrow> char option \<Rightarrow> string \<Rightarrow> bool" where
  "search_from r b [] = (ends r (b, []) \<noteq> [])"
| "search_from r b (c # cs) = (ends r (b, c # cs) \<noteq> [] \<or> search_from r (Some c) cs)"

definition re_search :: "regex \<Rightarrow> string \<Rightarrow> bool" where
  "re_search r s = search_from r None s"

definition words :: "string list \<Rightarrow> regex" where
  "words ws = Alts (map Lit ws)"

section \<open>Agent controller: routing\<close>

datatype module = CAG | RAG | KAG | SLM

fun keywords_of :: "module \<Rightarrow> string list" where
  "keywords_of CAG = [''helpline'', ''contact'', ''number'', ''phone'', ''emergency'',
     ''fire'', ''police'', ''ambulance'', ''hospital'',
     ''office hours'', ''timing'', ''schedule'', ''website'',
     ''zone contact'', ''collector office'', ''mayor office'']"
| "keywords_of RAG = [''latest'', ''recent'', ''update'', ''current'', ''new'', ''report'',
     ''schedule'', ''timings'', ''rules'', ''guidelines'', ''notification'',
     ''2025'', ''october'', ''september'', ''today'']"
| "keywords_of KAG = [''how to'', ''procedure'', ''steps'', ''process'', ''apply'',
     ''get'', ''obtain'', ''registration'', ''application'',
     ''who handles'', ''responsible'', ''department'',
     ''repair'', ''complaint'', ''issue'']"
| "keywords_of SLM = [''hello'', ''hi'', ''hey'', ''who are you'', ''what are you'',
     ''thank'', ''thanks'', ''bye'', ''goodbye'', ''help'',
     ''chat'', ''talk'', ''conversation'']"

fun patterns_of :: "module \<Rightarrow> regex list" where
  "patterns_of CAG =
    [Cat [WordB, words [''helpline'', ''contact'', ''number'', ''phone''], WordB],
     Cat [WordB, words [''emergency'', ''fire'', ''police'', ''ambulance''], WordB],
     Cat [WordB, words [''office hours'', ''timing'', ''schedule''], WordB],
     Cat [WordB, words [''zone'', ''area''], Plus Space, words [''contact'', ''number''], WordB]]"
| "patterns_of RAG =
    [Cat [WordB, words [''latest'', ''recent'', ''update'', ''current'', ''new''], WordB],
     Cat [WordB, words [''rules'', ''guidelines'', ''notification''], Plus Space,
          words [''2025'', ''2024''], WordB],
     Cat [WordB, words [''schedule'', ''timing''], Plus Space, words [''for'', ''of''], WordB],
     Cat [WordB, words [''what is'', ''show me''], Plus Space, Star Dot,
          words [''schedule'', ''timing'', ''rule''], WordB]]"
| "patterns_of KAG =
    [Cat [WordB, words [''how to'', ''procedure'', ''steps'', ''process''], WordB],
     Cat [WordB, words [''apply'', ''get'', ''obtain''], Plus Space,
          words [''for'', ''a'', ''an''], WordB],
     Cat [WordB, words [''who handles'', ''responsible'', ''department''], WordB],
     Cat [WordB, words [''repair'', ''complaint'', ''issue''], Plus Space,
          words [''in'', ''at'', ''for''], WordB]]"
| "patterns_of SLM =
    [Cat [WordB, Alts [Lit ''hello'', Lit ''hi'', Lit ''hey'',
            Cat [Lit ''good'', Plus Space, words [''morning'', ''afternoon'', ''evening'']]],
          WordB],
     Cat [WordB, words [''who'', ''what''], Plus Space, Lit ''are'', Plus Space, Lit ''you'', WordB],
     Cat [WordB, words [''thank'', ''thanks'', ''appreciate''], WordB],
     Cat [WordB, Alts [Lit ''bye'', Lit ''goodbye'', Cat [Lit ''see'', Plus Space, Lit ''you'']],
          WordB]]"

text \<open>The order of the keys of \<open>routing_patterns\<close> and of \<open>scores\<close>.\<close>

definition modules :: "module list" where
  "modules = [CAG, RAG, KAG, SLM]"

datatype matched = Keyword string | Pattern regex

text \<open>
  The two inner loops of \<open>analyze_query\<close> for one module: the score and the list of
  matched signatures, a keyword adding 1 and a pattern adding 2.
\<close>

fun keyword_loop :: "string list \<Rightarrow> string \<Rightarrow> nat \<times> matched list \<Rightarrow> nat \<times> matched list" where
  "keyword_loop [] q acc = acc"
| "keyword_loop (k # ks) q (n, ms) =
     keyword_loop ks q (if py_in k q then (n + 1, ms @ [Keyword k]) else (n, ms))"

fun pattern_loop :: "regex list \<Rightarrow> string \<Rightarrow> nat \<times> matched list \<Rightarrow> nat \<times> matched list" where
  "pattern_loop [] q acc = acc"
| "pattern_loop (r # rs) q (n, ms) =
     pattern_loop rs q (if re_search r q then (n + 2, ms @ [Pattern r]) else (n, ms))"

definition score_module :: "module \<Rightarrow> string \<Rightarrow> nat \<times> matched list" where
  "score_module m query_lower =
     pattern_loop (patterns_of m) query_lower (keyword_loop (keywords_of m) query_lower (0, []))"

text \<open>
  \<open>max(scores, key=scores.get)\<close>: the keys are visited in the order of the dictionary
  and the first one with the largest value is kept.
\<close>

fun max_key :: "('a \<Rightarrow> nat) \<Rightarrow> 'a \<Rightarrow> 'a list \<Rightarrow> 'a" where
  "max_key f best [] = best"
| "max_key f best (x # xs) = max_key f (if f best < f x then x else best) xs"

datatype reason = No_patterns_matched | Highest_score nat "matched list"

record analysis =
  selected_module :: module
  scores :: "module \<Rightarrow> nat"
  matched_patterns :: "module \<Rightarrow> matched list"
  reason :: reason
  confidence :: rat

definition analyze_query :: "string \<Rightarrow> analysis" where
  "analyze_query query =
    (let query_lower = lower query;
         scores = (\<lambda>m. fst (score_module m query_lower));
         matched_patterns = (\<lambda>m. snd (score_module m query_lower));
         best_module = max_key scores CAG [RAG, KAG, SLM];
         best_score = scores best_module;
         total = sum_list (map scores modules)
     in \<lparr>selected_module = (if best_score = 0 then SLM else best_module),
         scores = scores,
         matched_patterns = matched_patterns,
         reason = (if best_score = 0 then No_patterns_matched
                   else Highest_score best_score (matched_patterns best_module)),
         confidence = of_nat best_score / of_nat (max total 1)\<rparr>)"

text \<open>The priority order of the specification: Cache, Document, Graph, Conversational.\<close>

fun priority :: "module \<Rightarrow> nat" where
  "priority CAG = 0"
| "priority RAG = 1"
| "priority KAG = 2"
| "priority SLM = 3"

section \<open>SLM module\<close>

text \<open>
  The state of an \<open>SLMModule\<close>. The call of the text-completion service is a function
  of the query: the content of the first choice, or \<open>None\<close> when the call raises.
\<close>

record SLMModule =
  client_available :: bool
  model :: string
  chat_completion :: "string \<Rightarrow> string option"

definition fallback_responses :: "(string \<times> string) list" where
  "fallback_responses =
    [(''greeting'',
     ''Hello! I'' @ apostrophe @
       ''m CivicMindAI, your Chennai civic assistant. I can help you with civic '' @
       ''services, government procedures, emergency contacts, and more. What can I '' @
       ''assist you with today?''),
     (''who_are_you'',
     ''I'' @ apostrophe @
       ''m CivicMindAI, an AI-powered civic assistant specifically designed to help '' @
       ''Chennai residents with civic issues. I use advanced AI technologies like '' @
       ''RAG, KAG, and CAG to provide accurate and up-to-date information about '' @
       ''municipal services, government procedures, and civic amenities.''),
     (''capabilities'',
     ''I can help you with:'' @ nl @ bullet @ '' Emergency contact numbers'' @ nl @ bullet @
       '' Civic service procedures (water, tax, certificates)'' @ nl @ bullet @
       '' Government office information'' @ nl @ bullet @ '' Municipal service complaints'' @
       nl @ bullet @ '' Zone-specific contacts'' @ nl @ bullet @
       '' Latest civic updates and guidelines''),
     (''thanks'',
     ''You'' @ apostrophe @ ''re welcome! I'' @ apostrophe @
       ''m here to help Chennai residents with civic issues anytime. Feel free to '' @
       ''ask if you have more questions about municipal services, government '' @
       ''procedures, or civic amenities.''),
     (''goodbye'',
     ''Goodbye! Thank you for using CivicMindAI. Remember, I'' @ apostrophe @
       ''m always here to help with your Chennai civic needs. Have a great day!''),
     (''help'',
     ''I'' @ apostrophe @ ''m your Chennai civic assistant! You can ask me about:'' @ nl @
       bullet @ '' Emergency numbers (fire, police, ambulance)'' @ nl @ bullet @
       '' Water supply issues and CMWSSB services'' @ nl @ bullet @
       '' Property tax payment procedures'' @ nl @ bullet @ '' Garbage collection schedules'' @
       nl @ bullet @ '' Birth/death certificate applications'' @ nl @ bullet @
       '' Municipal office contacts'' @ nl @ bullet @ '' And much more civic information!''),
     (''how_it_works'',
     ''I use four advanced AI technologies:'' @ nl @ magnifier @
       '' **RAG**: Searches official documents and web sources'' @ nl @ brain @
       '' **KAG**: Uses knowledge graphs for step-by-step procedures'' @ nl @ high_voltage @
       '' **CAG**: Provides instant answers from cached information'' @ nl @ robot_face @
       '' **SLM**: Handles general conversation (that'' @ apostrophe @ ''s me!)'' @ nl @ nl @
       ''I automatically choose the best method based on your question type.''),
     (''about_chennai'',
     ''Chennai, the capital of Tamil Nadu, is served by several civic bodies:'' @ nl @ bullet @
       '' Greater Chennai Corporation (GCC) - Municipal services'' @ nl @ bullet @
       '' CMWSSB - Water supply and sewerage'' @ nl @ bullet @ '' TANGEDCO - Electricity'' @
       nl @ bullet @ '' Tamil Nadu Police - Law and order'' @ nl @ nl @
       ''I can help you interact with all these services efficiently!''),
     (''feedback'',
     ''I appreciate your feedback! While I can'' @ apostrophe @
       ''t store it permanently, your input helps me understand how to better assist '' @
       ''Chennai residents. If you have specific suggestions about civic services, I '' @
       ''recommend contacting the relevant departments directly using the contact '' @
       ''numbers I can provide.''),
     (''default'',
     ''I understand you'' @ apostrophe @
       ''re asking about something civic-related, but I need more specific '' @
       ''information to help you properly. Could you please ask about:'' @ nl @ bullet @
       '' A specific civic service (water, tax, certificates)'' @ nl @ bullet @
       '' An emergency contact number'' @ nl @ bullet @ '' A government procedure'' @ nl @
       bullet @ '' A municipal office contact'' @ nl @ nl @
       ''What exactly can I help you with today?'')]"

definition classify_query_type :: "string \<Rightarrow> string" where
  "classify_query_type query =
    (let query_lower = lower query in
     if any_in [''hello'', ''hi'', ''hey'', ''good morning'', ''good afternoon'', ''good evening'']
          query_lower
     then ''greeting''
     else if any_in [''who are you'', ''what are you'', ''tell me about yourself'',
                     ''introduce yourself''] query_lower
     then ''who_are_you''
     else if any_in [''what can you do'', ''your capabilities'', ''what do you help with'',
                     ''services''] query_lower
     then ''capabilities''
     else if any_in [''thank'', ''thanks'', ''appreciate''] query_lower
     then ''thanks''
     else if any_in [''bye'', ''goodbye'', ''see you'', ''exit'', ''quit''] query_lower
     then ''goodbye''
     else if any_in [''help'', ''assist'', ''support'', ''guide''] query_lower
     then ''help''
     else if any_in [''how do you work'', ''how does this work'', ''explain your system'']
               query_lower
     then ''how_it_works''
     else if any_in [''about chennai'', ''chennai city'', ''tell me about chennai''] query_lower
     then ''about_chennai''
     else if any_in [''feedback'', ''suggestion'', ''improve'', ''better''] query_lower
     then ''feedback''
     else ''default'')"

definition generate_openai_response :: "SLMModule \<Rightarrow> string \<Rightarrow> string option" where
  "generate_openai_response m query =
    (if \<not> client_available m then None
     else case chat_completion m query of
            None \<Rightarrow> None
          | Some content \<Rightarrow> Some (strip content))"

text \<open>The \<open>data\<close> of a response of the module; \<open>method_field\<close> is its key \<open>method\<close>.\<close>

record slm_data =
  response :: string
  method_field :: string
  model_used :: "string option"
  query_type :: "string option"

text \<open>\<open>d.get(k, default)\<close> on a dictionary given as the list of its items.\<close>

definition dict_get :: "('k \<times> 'v) list \<Rightarrow> 'k \<Rightarrow> 'v \<Rightarrow> 'v" where
  "dict_get d k dflt = (case map_of d k of Some v \<Rightarrow> v | None \<Rightarrow> dflt)"

definition slm_fallback :: "string \<Rightarrow> slm_data response" where
  "slm_fallback query =
    (let query_type = classify_query_type query;
         fallback_response =
           dict_get fallback_responses query_type (dict_get fallback_responses ''default'' [])
     in \<lparr>success = True,
         data = Some \<lparr>response = fallback_response, method_field = ''Fallback Response'',
                      model_used = None, query_type = Some query_type\<rparr>,
         source = ''SLM'', query_field = Some query,
         message = Some (''Fallback response for query type: '' @ query_type),
         error = None\<rparr>)"

definition slm_get_response :: "SLMModule \<Rightarrow> string \<Rightarrow> slm_data response" where
  "slm_get_response m query =
    (case (if client_available m then generate_openai_response m query else None) of
       None \<Rightarrow> slm_fallback query
     | Some openai_response \<Rightarrow>
         if openai_response \<noteq> []
         then \<lparr>success = True,
               data = Some \<lparr>response = openai_response, method_field = ''OpenAI API'',
                            model_used = Some (model m), query_type = None\<rparr>,
               source = ''SLM'', query_field = Some query,
               message = Some (''Response generated using '' @ model m),
               error = None\<rparr>
         else slm_fallback query)"

text \<open>
  \<open>format_response\<close>; \<open>now\<close> is the time of day that the first footer prints. Reading
  a key that the dictionary does not have raises.
\<close>

definition slm_format_response :: "string \<Rightarrow> slm_data response \<Rightarrow> exn + string" where
  "slm_format_response now response_data =
    (if \<not> success response_data
     then Inr (''I apologize, but I'' @ apostrophe @ ''m having trouble processing your request ''
            @ ''right now. Please try asking about specific civic services, and I'' @ apostrophe
            @ ''ll do my best to help!'')
     else case data response_data of
       None \<Rightarrow> Inl TypeError
     | Some d \<Rightarrow>
         if method_field d = ''OpenAI API''
         then (case model_used d of
                 None \<Rightarrow> Inl (KeyError ''model'')
               | Some mo \<Rightarrow>
                   Inr (response d @ nl @ nl @ speech_balloon @ '' *Response generated via ''
                        @ mo @ '' at '' @ now @ ''*''))
         else (case query_type d of
                 None \<Rightarrow> Inl (KeyError ''query_type'')
               | Some t \<Rightarrow>
                   Inr (response d @ nl @ nl @ robot_face @ '' *Predefined response for ''
                        @ t @ '' query*'')))"

text \<open>An \<open>SLMModule\<close> built without an API key: the client is not available.\<close>

definition offline_slm :: SLMModule where
  "offline_slm = \<lparr>client_available = False, model = ''gpt-3.5-turbo'',
     chat_completion = (\<lambda>q. None)\<rparr>"

section \<open>CAG module\<close>

text \<open>
  \<open>str.title()\<close>, which the module applies to the keywords of its tables (lower-case
  ASCII letters and spaces) and to the keys of the cache: a letter that follows a letter is
  made lower-case, any other letter upper-case. The letters are the ASCII ones.
\<close>

definition is_ascii_letter :: "char \<Rightarrow> bool" where
  "is_ascii_letter c = ((65 \<le> code c \<and> code c \<le> 90) \<or> (97 \<le> code c \<and> code c \<le> 122))"

definition upper_char :: "char \<Rightarrow> char" where
  "upper_char c = (if 97 \<le> code c \<and> code c \<le> 122 then char_of (code c - 32) else c)"

fun title_from :: "bool \<Rightarrow> string \<Rightarrow> string" where
  "title_from previous_is_cased [] = []"
| "title_from previous_is_cased (c # cs) =
     (if is_ascii_letter c then (if previous_is_cased then lower_char c else upper_char c) else c)
     # title_from (is_ascii_letter c) cs"

definition title :: "string \<Rightarrow> string" where
  "title s = title_from False s"

text \<open>
  The cache is the content of \<open>civic_cache.json\<close>: categories, each a dictionary from keys
  to values. It is empty when the file is missing.
\<close>

type_synonym 'v cache = "(string \<times> (string \<times> 'v) list) list"

record 'v CAGModule =
  cache_data :: "'v cache"

datatype 'v cache_result =
    Emergency_contact string 'v string
  | All_emergency_contacts "(string \<times> 'v) list"
  | Government_contact string 'v string
  | Civic_service string 'v string
  | Zone_contact string 'v string
  | Quick_info string 'v
  | Websites "(string \<times> 'v) list"

text \<open>The value of the key \<open>type\<close> of a result.\<close>

fun result_type :: "'v cache_result \<Rightarrow> string" where
  "result_type (Emergency_contact service number availability) = ''emergency_contact''"
| "result_type (All_emergency_contacts contacts) = ''all_emergency_contacts''"
| "result_type (Government_contact office number timing) = ''government_contact''"
| "result_type (Civic_service service helpline timing) = ''civic_service''"
| "result_type (Zone_contact zone contact services) = ''zone_contact''"
| "result_type (Quick_info info_type details) = ''quick_info''"
| "result_type (Websites websites) = ''websites''"

text \<open>
  The loop that four of the searches share: the first keyword of the table, in its order,
  that the query contains and whose key the category has.
\<close>

fun keyword_scan ::
  "(string \<times> string) list \<Rightarrow> (string \<times> 'v) list \<Rightarrow> string \<Rightarrow> (string \<times> string \<times> 'v) option" where
  "keyword_scan [] category_data q = None"
| "keyword_scan ((keyword, key) # rest) category_data q =
     (if py_in keyword q
      then (case map_of category_data key of
              Some v \<Rightarrow> Some (keyword, key, v)
            | None \<Rightarrow> keyword_scan rest category_data q)
      else keyword_scan rest category_data q)"

definition emergency_keywords :: "(string \<times> string) list" where
  "emergency_keywords =
    [(''fire'', ''fire''), (''police'', ''police''), (''ambulance'', ''ambulance''),
     (''medical'', ''ambulance''), (''hospital'', ''ambulance''), (''flood'', ''flood_helpline''),
     (''water emergency'', ''cmwssb_complaint''), (''electricity'', ''electricity_complaint''),
     (''gas'', ''gas_leak''), (''women'', ''women_helpline''), (''child'', ''child_helpline''),
     (''corporation'', ''chennai_corporation'')]"

definition search_emergency_contacts :: "'v CAGModule \<Rightarrow> string \<Rightarrow> 'v cache_result option" where
  "search_emergency_contacts m q =
    (let emergency_data = dict_get (cache_data m) ''emergency_contacts'' [] in
     case keyword_scan emergency_keywords emergency_data q of
       Some (keyword, contact_key, v) \<Rightarrow>
         Some (Emergency_contact (title keyword) v
                (if contact_key \<in> set [''fire'', ''police'', ''ambulance'']
                 then ''24x7'' else ''Office hours''))
     | None \<Rightarrow>
         if py_in ''emergency'' q \<and> py_in ''all'' q
         then Some (All_emergency_contacts emergency_data)
         else None)"

definition gov_keywords :: "(string \<times> string) list" where
  "gov_keywords =
    [(''collector'', ''collector_office''), (''mayor'', ''mayor_office''),
     (''district'', ''district_collector''), (''cm'', ''cm_cell''),
     (''chief minister'', ''cm_cell''), (''police control'', ''tn_police_control'')]"

definition search_government_contacts :: "'v CAGModule \<Rightarrow> string \<Rightarrow> 'v cache_result option" where
  "search_government_contacts m q =
    (let gov_data = dict_get (cache_data m) ''government_contacts'' [] in
     case keyword_scan gov_keywords gov_data q of
       Some (keyword, contact_key, v) \<Rightarrow>
         Some (Government_contact (title keyword) v ''Office hours (9:30 AM - 5:30 PM)'')
     | None \<Rightarrow> None)"

definition service_keywords :: "(string \<times> string) list" where
  "service_keywords =
    [(''property tax'', ''property_tax''), (''water tax'', ''water_tax''),
     (''birth certificate'', ''birth_certificate''),
     (''death certificate'', ''death_certificate''), (''trade license'', ''trade_license''),
     (''building permit'', ''building_permit''), (''marriage'', ''marriage_registration'')]"

definition search_civic_services :: "'v CAGModule \<Rightarrow> string \<Rightarrow> 'v cache_result option" where
  "search_civic_services m q =
    (let services_data = dict_get (cache_data m) ''civic_services_helplines'' [] in
     case keyword_scan service_keywords services_data q of
       Some (keyword, service_key, v) \<Rightarrow> Some (Civic_service (title keyword) v ''Office hours'')
     | None \<Rightarrow> None)"

definition zone_keywords :: "(string \<times> string) list" where
  "zone_keywords =
    [(''north'', ''zone_1_north''), (''north east'', ''zone_2_north_east''),
     (''central'', ''zone_3_central''), (''south west'', ''zone_4_south_west''),
     (''south'', ''zone_5_south''), (''adyar'', ''zone_6_adyar''),
     (''anna nagar'', ''zone_7_anna_nagar''), (''teynampet'', ''zone_8_teynampet'')]"

definition search_zone_info :: "'v CAGModule \<Rightarrow> string \<Rightarrow> 'v cache_result option" where
  "search_zone_info m q =
    (let zones_data = dict_get (cache_data m) ''zone_contacts'' [] in
     case keyword_scan zone_keywords zones_data q of
       Some (keyword, zone_key, v) \<Rightarrow>
         Some (Zone_contact (title keyword) v ''Water supply, complaints, maintenance'')
     | None \<Rightarrow> None)"

text \<open>In the table of the quick information a keyword stands for one key or for a list of keys.\<close>

datatype info_key = One string | Many "string list"

definition info_keywords :: "(string \<times> info_key) list" where
  "info_keywords =
    [(''office hours'', One ''corporation_office_hours''),
     (''timing'', One ''corporation_office_hours''),
     (''water supply'', One ''water_supply_timings''),
     (''garbage'', One ''garbage_collection''),
     (''tax due'', One ''property_tax_due_date''),
     (''website'', Many [''corporation_website'', ''cmwssb_website''])]"

fun info_scan ::
  "(string \<times> info_key) list \<Rightarrow> (string \<times> 'v) list \<Rightarrow> string \<Rightarrow> 'v cache_result option" where
  "info_scan [] quick_data q = None"
| "info_scan ((keyword, info_key) # rest) quick_data q =
     (if py_in keyword q
      then (case info_key of
              Many ks \<Rightarrow>
                Some (Websites
                  (List.map_filter (\<lambda>k. map_option (Pair k) (map_of quick_data k)) ks))
            | One k \<Rightarrow>
                (case map_of quick_data k of
                   Some v \<Rightarrow> Some (Quick_info (title keyword) v)
                 | None \<Rightarrow> info_scan rest quick_data q))
      else info_scan rest quick_data q)"

definition search_quick_info :: "'v CAGModule \<Rightarrow> string \<Rightarrow> 'v cache_result option" where
  "search_quick_info m q =
    info_scan info_keywords (dict_get (cache_data m) ''quick_info'' []) q"

text \<open>The keyword lists of the first-pass test of \<open>search_cache\<close>, in the order of the tests.\<close>

definition emergency_gate :: "string list" where
  "emergency_gate = [''emergency'', ''helpline'', ''contact'', ''phone'', ''number'']"

definition government_gate :: "string list" where
  "government_gate = [''office'', ''collector'', ''mayor'', ''government'']"

definition civic_gate :: "string list" where
  "civic_gate = [''tax'', ''certificate'', ''license'', ''permit'']"

definition zone_gate :: "string list" where
  "zone_gate = [''zone'', ''area'', ''ward'', ''anna nagar'', ''adyar'']"

definition quick_gate :: "string list" where
  "quick_gate = [''timing'', ''hours'', ''schedule'', ''website'']"

definition search_cache :: "'v CAGModule \<Rightarrow> string \<Rightarrow> 'v cache_result option" where
  "search_cache m query =
    (let query_lower = lower query in
     if any_in emergency_gate query_lower then search_emergency_contacts m query_lower
     else if any_in government_gate query_lower then search_government_contacts m query_lower
     else if any_in civic_gate query_lower then search_civic_services m query_lower
     else if any_in zone_gate query_lower then search_zone_info m query_lower
     else if any_in quick_gate query_lower then search_quick_info m query_lower
     else None)"

text \<open>\<open>get_response\<close>; its success dictionary has one key more, \<open>response_time\<close>.\<close>

record 'd timed_response = "'d response" +
  response_time :: "string option"

definition cag_get_response :: "'v CAGModule \<Rightarrow> string \<Rightarrow> 'v cache_result timed_response" where
  "cag_get_response m query =
    (case search_cache m query of
       Some cached_result \<Rightarrow>
         \<lparr>success = True, data = Some cached_result, source = ''CAG'', query_field = None,
          message = Some (''Retrieved from cache: '' @ result_type cached_result),
          error = None, response_time = Some ''Instant''\<rparr>
     | None \<Rightarrow>
         \<lparr>success = False, data = None, source = ''CAG'', query_field = None,
          message = Some ''No cached information found for this query'',
          error = None, response_time = None\<rparr>)"

text \<open>The cache that the repository ships in \<open>civic_cache.json\<close>.\<close>

definition civic_cache :: "string cache" where
  "civic_cache =
    [(''emergency_contacts'',
      [(''fire'', ''101''), (''police'', ''100''), (''ambulance'', ''108''),
       (''chennai_corporation'', ''1913''), (''cmwssb_complaint'', ''044-45674567''),
       (''electricity_complaint'', ''044-25675765''), (''gas_leak'', ''1906''),
       (''women_helpline'', ''1091''), (''child_helpline'', ''1098''),
       (''disaster_management'', ''108''), (''flood_helpline'', ''1913'')]),
     (''government_contacts'',
      [(''collector_office'', ''044-28520314''), (''mayor_office'', ''044-25384681''),
       (''district_collector'', ''044-25620314''), (''cm_cell'', ''044-25675765''),
       (''tn_police_control'', ''044-28447095'')]),
     (''civic_services_helplines'',
      [(''property_tax'', ''1913''), (''water_tax'', ''044-28451300''),
       (''birth_certificate'', ''044-25384680''), (''death_certificate'', ''044-25384680''),
       (''trade_license'', ''044-25384689''), (''building_permit'', ''044-25384690''),
       (''marriage_registration'', ''044-25384685'')]),
     (''zone_contacts'',
      [(''zone_1_north'', ''044-28451300 Ext.233''),
       (''zone_2_north_east'', ''044-28451300 Ext.213''),
       (''zone_3_central'', ''044-28451300 Ext.212''),
       (''zone_4_south_west'', ''044-28451300 Ext.386''),
       (''zone_5_south'', ''044-28451300 Ext.211''), (''zone_6_adyar'', ''044-24912345''),
       (''zone_7_anna_nagar'', ''044-26152345''), (''zone_8_teynampet'', ''044-24332345'')]),
     (''quick_info'',
      [(''corporation_office_hours'', ''9:30 AM to 5:30 PM (Monday to Friday)''),
       (''emergency_services'', ''24x7 Available''),
       (''water_supply_timings'', ''6 AM to 8 AM and 6 PM to 8 PM''),
       (''garbage_collection'', ''Daily 6 AM to 10 AM''),
       (''property_tax_due_date'', ''31st March every year''),
       (''water_tax_frequency'', ''Bi-monthly''),
       (''corporation_website'', ''https://chennaicorporation.gov.in''),
       (''cmwssb_website'', ''https://cmwssb.tn.gov.in'')])]"

text \<open>A cache whose zone contacts lack the north zone.\<close>

definition north_east_only :: "string cache" where
  "north_east_only = [(''zone_contacts'', [(''zone_2_north_east'', ''044-28451300 Ext.213'')])]"

text \<open>
  The five categories of \<open>search_cache\<close>, for the statements about it: the keyword list
  of the first-pass test of a category, the categories tested before it, the cache category
  that its search reads, its keyword table and the types of the results of its search.
\<close>

datatype category = Emergency | Government | Civic_services | Zone | Quick

fun gate_of :: "category \<Rightarrow> string list" where
  "gate_of Emergency = emergency_gate"
| "gate_of Government = government_gate"
| "gate_of Civic_services = civic_gate"
| "gate_of Zone = zone_gate"
| "gate_of Quick = quick_gate"

fun tested_before :: "category \<Rightarrow> category list" where
  "tested_before Emergency = []"
| "tested_before Government = [Emergency]"
| "tested_before Civic_services = [Emergency, Government]"
| "tested_before Zone = [Emergency, Government, Civic_services]"
| "tested_before Quick = [Emergency, Government, Civic_services, Zone]"

definition first_pass :: "string \<Rightarrow> category \<Rightarrow> bool" where
  "first_pass query_lower c =
    (any_in (gate_of c) query_lower
     \<and> list_all (\<lambda>b. \<not> any_in (gate_of b) query_lower) (tested_before c))"

fun cache_category :: "category \<Rightarrow> string" where
  "cache_category Emergency = ''emergency_contacts''"
| "cache_category Government = ''government_contacts''"
| "cache_category Civic_services = ''civic_services_helplines''"
| "cache_category Zone = ''zone_contacts''"
| "cache_category Quick = ''quick_info''"

fun table_of :: "category \<Rightarrow> (string \<times> info_key) list" where
  "table_of Emergency = map (apsnd One) emergency_keywords"
| "table_of Government = map (apsnd One) gov_keywords"
| "table_of Civic_services = map (apsnd One) service_keywords"
| "table_of Zone = map (apsnd One) zone_keywords"
| "table_of Quick = info_keywords"

fun types_of :: "category \<Rightarrow> string list" where
  "types_of Emergency = [''emergency_contact'']"
| "types_of Government = [''government_contact'']"
| "types_of Civic_services = [''civic_service'']"
| "types_of Zone = [''zone_contact'']"
| "types_of Quick = [''quick_info'', ''websites'']"

text \<open>The cache has the key of a table entry in the category (a list of keys needs none).\<close>

fun has_key :: "'v CAGModule \<Rightarrow> category \<Rightarrow> info_key \<Rightarrow> bool" where
  "has_key m c (One k) = (map_of (dict_get (cache_data m) (cache_category c) []) k \<noteq> None)"
| "has_key m c (Many ks) = True"

section \<open>RAG module\<close>

text \<open>\<open>str(n)\<close> for a number that is not negative.\<close>

fun str_nat :: "nat \<Rightarrow> string" where
  "str_nat n =
    (if n < 10 then [char_of (48 + n)] else str_nat (n div 10) @ [char_of (48 + n mod 10)])"

declare str_nat.simps [simp del]

text \<open>\<open>content.split('\n\n')\<close>: the pieces between the occurrences of two line feeds, found from the left.\<close>

fun split_paragraphs :: "string \<Rightarrow> string list" where
  "split_paragraphs [] = [[]]"
| "split_paragraphs [c] = [[c]]"
| "split_paragraphs (c # d # cs) =
     (if [c] = nl \<and> [d] = nl then [] # split_paragraphs cs
      else (case split_paragraphs (d # cs) of
              [] \<Rightarrow> [[c]]
            | paragraph # rest \<Rightarrow> (c # paragraph) # rest))"

text \<open>A chunk of a document; \<open>chunk_ident\<close>, \<open>chunk_content\<close> and \<open>chunk_source\<close> are its keys \<open>id\<close>, \<open>content\<close> and \<open>source\<close>.\<close>

record chunk =
  chunk_ident :: string
  chunk_content :: string
  chunk_source :: string
  chunk_id :: nat

definition make_chunk :: "string \<Rightarrow> nat \<Rightarrow> string \<Rightarrow> chunk" where
  "make_chunk filename n current_chunk =
    \<lparr>chunk_ident = filename @ ''_'' @ str_nat n, chunk_content = strip current_chunk,
     chunk_source = filename, chunk_id = n\<rparr>"

text \<open>
  The loop of \<open>_split_document\<close> over the paragraphs, on the state made of \<open>chunks\<close>,
  \<open>current_chunk\<close> and \<open>chunk_id\<close>.
\<close>

fun split_loop ::
  "string \<Rightarrow> int \<Rightarrow> string list \<Rightarrow> chunk list \<times> string \<times> nat \<Rightarrow> chunk list \<times> string \<times> nat" where
  "split_loop filename chunk_size [] state = state"
| "split_loop filename chunk_size (paragraph # rest) (chunks, current_chunk, n) =
     (if int (length (current_chunk @ paragraph)) < chunk_size
      then split_loop filename chunk_size rest (chunks, current_chunk @ paragraph @ nl @ nl, n)
      else if strip current_chunk \<noteq> []
      then split_loop filename chunk_size rest
             (chunks @ [make_chunk filename n current_chunk], paragraph @ nl @ nl, n + 1)
      else split_loop filename chunk_size rest (chunks, paragraph @ nl @ nl, n))"

definition split_document :: "string \<Rightarrow> string \<Rightarrow> int \<Rightarrow> chunk list" where
  "split_document content filename chunk_size =
    (case split_loop filename chunk_size (split_paragraphs content) ([], [], 0) of
       (chunks, current_chunk, n) \<Rightarrow>
         if strip current_chunk \<noteq> [] then chunks @ [make_chunk filename n current_chunk]
         else chunks)"

text \<open>
  The state of the module: the chunks, and the index if one was built. The index stands
  with the embedding of the query: for a query and \<open>top_k\<close> it gives the pairs of
  \<open>zip(scores[0], indices[0])\<close>, or nothing when the encoding or the search raises.
\<close>

record 's RAGModule =
  documents :: "chunk list"
  index :: "(string \<Rightarrow> nat \<Rightarrow> ('s \<times> int) list option) option"

record 's scored_chunk = chunk +
  score :: 's
  rank :: nat

text \<open>
  The loop of \<open>search_documents\<close> over the pairs, \<open>i\<close> counting them. A negative index
  counts from the end of the list as Python has it; below \<open>-len(documents)\<close> the access
  raises, which ends the search with no result.
\<close>

fun results_loop :: "chunk list \<Rightarrow> nat \<Rightarrow> ('s \<times> int) list \<Rightarrow> 's scored_chunk list option" where
  "results_loop docs i [] = Some []"
| "results_loop docs i ((s, idx) # rest) =
     (if idx < int (length docs)
      then if idx < - int (length docs) then None
           else (let doc = docs ! nat (if idx < 0 then idx + int (length docs) else idx)
                 in map_option
                      (Cons \<lparr>chunk_ident = chunk_ident doc, chunk_content = chunk_content doc,
                             chunk_source = chunk_source doc, chunk_id = chunk_id doc,
                             score = s, rank = i + 1\<rparr>)
                      (results_loop docs (i + 1) rest))
      else results_loop docs (i + 1) rest)"

definition search_documents :: "'s RAGModule \<Rightarrow> string \<Rightarrow> nat \<Rightarrow> 's scored_chunk list" where
  "search_documents m query top_k =
    (case index m of
       None \<Rightarrow> []
     | Some search \<Rightarrow>
         if documents m = [] then []
         else (case search query top_k of
                 None \<Rightarrow> []
               | Some pairs \<Rightarrow>
                   (case results_loop (documents m) 0 pairs of
                      None \<Rightarrow> []
                    | Some results \<Rightarrow> results)))"

record web_result =
  web_title :: string
  url :: string
  web_content :: string
  web_source :: string
  date :: string
  relevance_score :: "rat option"

definition mock_results :: "string \<Rightarrow> web_result list" where
  "mock_results query =
    [\<lparr>web_title = ''Chennai Corporation Latest Updates - October 2025'',
      url = ''https://chennaicorporation.gov.in/latest-updates'',
      web_content = ''Recent updates on '' @ query
        @ '' in Chennai. New initiatives launched for better civic services.'',
      web_source = ''Chennai Corporation Official'', date = ''2025-10-04'',
      relevance_score = None\<rparr>,
     \<lparr>web_title = ''CMWSSB News: '' @ query @ '' Services Enhanced'',
      url = ''https://cmwssb.tn.gov.in/news'',
      web_content = ''Chennai Metro Water board announces improvements in '' @ query
        @ '' related services across the city.'',
      web_source = ''CMWSSB Official'', date = ''2025-10-03'', relevance_score = None\<rparr>,
     \<lparr>web_title = ''Tamil Nadu Government Portal - '' @ query,
      url = ''https://tn.gov.in/citizen-services'',
      web_content = ''Official government guidelines and procedures for '' @ query
        @ '' in Tamil Nadu.'',
      web_source = ''TN Government'', date = ''2025-10-02'', relevance_score = None\<rparr>]"

definition search_web :: "string \<Rightarrow> nat \<Rightarrow> web_result list" where
  "search_web query num_results =
    map (\<lambda>result. result\<lparr>relevance_score := Some (85 / 100)\<rparr>)
      (take num_results (mock_results query))"

record 's rag_data =
  documents_found :: "'s scored_chunk list"
  web_sources :: "web_result list"
  total_sources :: nat

definition rag_get_response :: "'s RAGModule \<Rightarrow> string \<Rightarrow> 's rag_data response" where
  "rag_get_response m query =
    (let doc_results = search_documents m query 3;
         web_results = search_web query 2;
         all_results = \<lparr>documents_found = doc_results, web_sources = web_results,
                        total_sources = length doc_results + length web_results\<rparr>
     in if doc_results \<noteq> [] \<or> web_results \<noteq> []
        then \<lparr>success = True, data = Some all_results, source = ''RAG'',
              query_field = Some query,
              message = Some (''Found '' @ str_nat (total_sources all_results)
                              @ '' relevant sources''),
              error = None\<rparr>
        else \<lparr>success = False, data = None, source = ''RAG'', query_field = Some query,
              message = Some ''No relevant documents or web sources found'', error = None\<rparr>)"

text \<open>
  The text made of gaps and bodies in turn: a gap, a body, a gap, and so on, ending with
  a gap. It states how the bodies of the chunks lie in a document.
\<close>

fun weave :: "string list \<Rightarrow> string list \<Rightarrow> string" where
  "weave [] bodies = []"
| "weave (gap # gaps) [] = gap"
| "weave (gap # gaps) (body # bodies) = gap @ body @ weave gaps bodies"

text \<open>The length of the largest paragraph of a document.\<close>

definition largest_paragraph :: "string \<Rightarrow> nat" where
  "largest_paragraph content = foldr max (map length (split_paragraphs content)) 0"

text \<open>A module with no document and no index.\<close>

definition empty_rag :: "unit RAGModule" where
  "empty_rag = \<lparr>documents = [], index = None\<rparr>"

text \<open>A document of three paragraphs.\<close>

definition sample_document :: string where
  "sample_document = ''abc def'' @ nl @ nl @ '' ghij klm'' @ nl @ nl @ ''n''"

section \<open>KAG module\<close>

text \<open>
  The knowledge of \<open>civic_knowledge.json\<close>, each entry with the keys that
  \<open>build_knowledge_graph\<close> reads. The fields \<open>dept_id\<close>, \<open>dept_name\<close> and
  \<open>dept_type\<close> are the keys \<open>id\<close>, \<open>name\<close> and \<open>type\<close> of a department, and
  likewise for the other entries; values that the method stores without reading them have
  the type \<open>'j\<close>.
\<close>

record department =
  dept_id :: string
  dept_name :: string
  dept_type :: string

record service =
  service_id :: string
  service_name :: string
  service_department :: string

record issue =
  issue_id :: string
  issue_name :: string
  issue_service :: string

record 'j procedure =
  proc_title :: string
  proc_department :: string
  steps :: 'j
  timeline :: "'j option"
  fees :: "'j option"
  contact :: "'j option"

record relationship =
  rel_from :: string
  rel_to :: string
  rel_type :: string

record 'j knowledge =
  departments :: "department list"
  services :: "service list"
  issues :: "issue list"
  procedures :: "(string \<times> 'j procedure) list"
  relationships :: "relationship list"























section \<open>CAG module: the text of a response\<close>

definition police_car_light :: string where
  "police_car_light = [CHR 0xF0, CHR 0x9F, CHR 0x9A, CHR 0xA8]"

definition telephone_receiver :: string where
  "telephone_receiver = [CHR 0xF0, CHR 0x9F, CHR 0x93, CHR 0x9E]"

definition alarm_clock :: string where
  "alarm_clock = [CHR 0xE2, CHR 0x8F, CHR 0xB0]"

definition classical_building :: string where
  "classical_building = [CHR 0xF0, CHR 0x9F, CHR 0x8F, CHR 0x9B, CHR 0xEF, CHR 0xB8, CHR 0x8F]"

definition clipboard :: string where
  "clipboard = [CHR 0xF0, CHR 0x9F, CHR 0x93, CHR 0x8B]"

definition round_pushpin :: string where
  "round_pushpin = [CHR 0xF0, CHR 0x9F, CHR 0x93, CHR 0x8D]"

definition wrench :: string where
  "wrench = [CHR 0xF0, CHR 0x9F, CHR 0x94, CHR 0xA7]"

definition information :: string where
  "information = [CHR 0xE2, CHR 0x84, CHR 0xB9, CHR 0xEF, CHR 0xB8, CHR 0x8F]"

definition memo :: string where
  "memo = [CHR 0xF0, CHR 0x9F, CHR 0x93, CHR 0x9D]"

definition globe_with_meridians :: string where
  "globe_with_meridians = [CHR 0xF0, CHR 0x9F, CHR 0x8C, CHR 0x90]"

text \<open>\<open>sep.join(xs)\<close>, and the line that \<open>format_response\<close> prints for an entry of a dictionary.\<close>

fun join :: "string \<Rightarrow> string list \<Rightarrow> string" where
  "join sep [] = []"
| "join sep [x] = x"
| "join sep (x # y # ys) = x @ sep @ join sep (y # ys)"

definition entry_line :: "string \<times> string \<Rightarrow> string" where
  "entry_line entry =
    (case entry of (name, v) \<Rightarrow>
       bullet @ '' '' @ title (map (\<lambda>c. if c = CHR ''_'' then CHR '' '' else c) name)
       @ '': '' @ v)"

text \<open>
  \<open>format_response\<close> of the module, for a cache whose values are strings. Its last
  branch, for a type that is none of the seven, has no result of \<open>search_cache\<close>.
\<close>

definition cag_format_response :: "string cache_result timed_response \<Rightarrow> exn + string" where
  "cag_format_response response_data =
    (if \<not> success response_data
     then Inr (''I couldn'' @ apostrophe @ ''t find that information in my cache. ''
               @ ''Let me search other sources for you.'')
     else case data response_data of
       None \<Rightarrow> Inl AttributeError
     | Some (Emergency_contact service number availability) \<Rightarrow>
         Inr (police_car_light @ '' **'' @ service @ '' Emergency**'' @ nl
              @ telephone_receiver @ '' **Contact:** '' @ number @ nl
              @ alarm_clock @ '' **Availability:** '' @ availability)
     | Some (Government_contact office number timing) \<Rightarrow>
         Inr (classical_building @ '' **'' @ office @ ''**'' @ nl
              @ telephone_receiver @ '' **Contact:** '' @ number @ nl
              @ alarm_clock @ '' **Timing:** '' @ timing)
     | Some (Civic_service service helpline timing) \<Rightarrow>
         Inr (clipboard @ '' **'' @ service @ ''**'' @ nl
              @ telephone_receiver @ '' **Helpline:** '' @ helpline @ nl
              @ alarm_clock @ '' **Timing:** '' @ timing)
     | Some (Zone_contact zone number offered) \<Rightarrow>
         Inr (round_pushpin @ '' **'' @ zone @ '' Zone**'' @ nl
              @ telephone_receiver @ '' **Contact:** '' @ number @ nl
              @ wrench @ '' **Services:** '' @ offered)
     | Some (Quick_info info_type details) \<Rightarrow>
         Inr (information @ '' **'' @ info_type @ ''**'' @ nl
              @ memo @ '' **Details:** '' @ details)
     | Some (Websites websites) \<Rightarrow>
         Inr (globe_with_meridians @ '' **Official Websites:**'' @ nl
              @ join nl (map entry_line websites))
     | Some (All_emergency_contacts contacts) \<Rightarrow>
         Inr (police_car_light @ '' **All Emergency Contacts:**'' @ nl
              @ join nl (map entry_line contacts)))"

section \<open>Agent controller\<close>

text \<open>
  A module as the controller uses it: its two methods, each with a result or the exception
  it raises. Reading a module that the controller does not have raises
  \<open>AttributeError\<close>.
\<close>

record 'd module_object =
  get_response :: "string \<Rightarrow> exn + 'd"
  format_response :: "'d \<Rightarrow> exn + string"

definition absent_module :: "'d module_object" where
  "absent_module = \<lparr>get_response = (\<lambda>q. Inl AttributeError),
                     format_response = (\<lambda>r. Inl AttributeError)\<rparr>"

definition cag_object :: "string CAGModule \<Rightarrow> string cache_result timed_response module_object" where
  "cag_object m = \<lparr>get_response = (\<lambda>q. Inr (cag_get_response m q)),
                    format_response = cag_format_response\<rparr>"

text \<open>
  The state of the controller. The RAG, KAG and CAG modules are taken as they answer, with
  any type of data; \<open>cag_object\<close> above is the CAG module of this theory. The time of
  day that the SLM module prints is the argument \<open>now\<close> of the functions below.
\<close>

record ('c, 'r, 'k) AgentController =
  rag_module :: "'r response module_object"
  rag_available :: bool
  kag_module :: "'k response module_object"
  kag_available :: bool
  cag_module :: "'c timed_response module_object"
  cag_available :: bool
  slm_module :: SLMModule
  slm_available :: bool

datatype ('c, 'r, 'k) module_response =
    CAG_response "'c timed_response"
  | RAG_response "'r response"
  | KAG_response "'k response"
  | SLM_response "slm_data response"
  | Controller_response "unit response"

text \<open>
  The dictionary that \<open>route_query\<close> returns; \<open>cr_success\<close>, \<open>cr_selected_module\<close>
  and \<open>cr_error\<close> are its keys \<open>success\<close>, \<open>selected_module\<close> and \<open>error\<close>.
\<close>

record ('c, 'r, 'k) controller_response =
  cr_success :: bool
  response_text :: string
  cr_selected_module :: module
  routing_analysis :: analysis
  module_response :: "('c, 'r, 'k) module_response option"
  cr_error :: "exn option"

text \<open>The name of a module, which is the value of \<open>selected_module\<close> in the source.\<close>

fun name_of_module :: "module \<Rightarrow> string" where
  "name_of_module CAG = ''CAG''"
| "name_of_module RAG = ''RAG''"
| "name_of_module KAG = ''KAG''"
| "name_of_module SLM = ''SLM''"

text \<open>
  The two calls of a branch of \<open>route_query\<close>: \<open>get_response\<close>, then
  \<open>format_response\<close> on its result. Either may raise.
\<close>

definition call_module :: "'d module_object \<Rightarrow> string \<Rightarrow> exn + ('d \<times> string)" where
  "call_module obj query =
    (case get_response obj query of
       Inl e \<Rightarrow> Inl e
     | Inr reply \<Rightarrow>
         (case format_response obj reply of
            Inl e \<Rightarrow> Inl e
          | Inr formatted_response \<Rightarrow> Inr (reply, formatted_response)))"

definition slm_object :: "string \<Rightarrow> SLMModule \<Rightarrow> slm_data response module_object" where
  "slm_object now m = \<lparr>get_response = (\<lambda>q. Inr (slm_get_response m q)),
                        format_response = slm_format_response now\<rparr>"

text \<open>
  The branch of \<open>route_query\<close> for a module: the value of
  \<open>response.get('success', False)\<close>, the formatted text and the response.
\<close>

fun invoke ::
  "string \<Rightarrow> ('c, 'r, 'k) AgentController \<Rightarrow> module \<Rightarrow> string
     \<Rightarrow> exn + (bool \<times> string \<times> ('c, 'r, 'k) module_response)" where
  "invoke now c CAG query =
     map_sum id (\<lambda>(reply, formatted_response).
                   (success reply, formatted_response, CAG_response reply))
       (call_module (cag_module c) query)"
| "invoke now c RAG query =
     map_sum id (\<lambda>(reply, formatted_response).
                   (success reply, formatted_response, RAG_response reply))
       (call_module (rag_module c) query)"
| "invoke now c KAG query =
     map_sum id (\<lambda>(reply, formatted_response).
                   (success reply, formatted_response, KAG_response reply))
       (call_module (kag_module c) query)"
| "invoke now c SLM query =
     map_sum id (\<lambda>(reply, formatted_response).
                   (success reply, formatted_response, SLM_response reply))
       (call_module (slm_object now (slm_module c)) query)"

definition no_modules_available :: "unit response" where
  "no_modules_available =
    \<lparr>success = False, data = None, source = ''Controller'', query_field = None,
     message = None, error = Some ''No modules available''\<rparr>"

definition route_query ::
  "string \<Rightarrow> ('c, 'r, 'k) AgentController \<Rightarrow> string \<Rightarrow> ('c, 'r, 'k) controller_response" where
  "route_query now c query =
    (let analysis = analyze_query query;
         selected = selected_module analysis;
         outcome =
           (if selected = CAG \<and> cag_available c
            then map_sum id (Pair selected) (invoke now c CAG query)
            else if selected = RAG \<and> rag_available c
            then map_sum id (Pair selected) (invoke now c RAG query)
            else if selected = KAG \<and> kag_available c
            then map_sum id (Pair selected) (invoke now c KAG query)
            else if selected = SLM \<and> slm_available c
            then map_sum id (Pair selected) (invoke now c SLM query)
            else if slm_available c
            then map_sum id (Pair SLM) (invoke now c SLM query)
            else Inr (selected, False,
                      ''I apologize, but I'' @ apostrophe @ ''m currently unable to process ''
                      @ ''your request. Please try again later.'',
                      Controller_response no_modules_available))
     in case outcome of
          Inr (selected_now, ok, formatted_response, reply) \<Rightarrow>
            \<lparr>cr_success = ok, response_text = formatted_response,
             cr_selected_module = selected_now, routing_analysis = analysis,
             module_response = Some reply, cr_error = None\<rparr>
        | Inl e \<Rightarrow>
            \<lparr>cr_success = False,
             response_text = ''I encountered an error processing your request. ''
               @ ''Please try rephrasing your question.'',
             cr_selected_module = selected, routing_analysis = analysis,
             module_response = None, cr_error = Some e\<rparr>)"

text \<open>The flag of a module, and the text that the SLM module gives from its table for a query.\<close>

fun available :: "('c, 'r, 'k) AgentController \<Rightarrow> module \<Rightarrow> bool" where
  "available c CAG = cag_available c"
| "available c RAG = rag_available c"
| "available c KAG = kag_available c"
| "available c SLM = slm_available c"

definition canned_text :: "string \<Rightarrow> string" where
  "canned_text query =
    dict_get fallback_responses (classify_query_type query)
      (dict_get fallback_responses ''default'' [])
    @ nl @ nl @ robot_face @ '' *Predefined response for '' @ classify_query_type query
    @ '' query*''"

text \<open>
  Two controllers over the SLM module without a client: one with no other module, one
  with the CAG module on the shipped cache.
\<close>

definition slm_only :: "(string cache_result, unit, unit) AgentController" where
  "slm_only =
    \<lparr>rag_module = absent_module, rag_available = False,
     kag_module = absent_module, kag_available = False,
     cag_module = absent_module, cag_available = False,
     slm_module = offline_slm, slm_available = True\<rparr>"

definition with_cache :: "(string cache_result, unit, unit) AgentController" where
  "with_cache = slm_only\<lparr>cag_module := cag_object \<lparr>cache_data = civic_cache\<rparr>,
                          cag_available := True\<rparr>"

section \<open>Evaluation of the character classes\<close>

lemma lower_char_lits:
  "lower_char CHR ''a'' = CHR ''a''"
  "lower_char CHR ''b'' = CHR ''b''"
  "lower_char CHR ''c'' = CHR ''c''"
  "lower_char CHR ''d'' = CHR ''d''"
  "lower_char CHR ''e'' = CHR ''e''"
  "lower_char CHR ''f'' = CHR ''f''"
  "lower_char CHR ''g'' = CHR ''g''"
  "lower_char CHR ''h'' = CHR ''h''"
  "lower_char CHR ''i'' = CHR ''i''"
  "lower_char CHR ''j'' = CHR ''j''"
  "lower_char CHR ''k'' = CHR ''k''"
  "lower_char CHR ''l'' = CHR ''l''"
  "lower_char CHR ''m'' = CHR ''m''"
  "lower_char CHR ''n'' = CHR ''n''"
  "lower_char CHR ''o'' = CHR ''o''"
  "lower_char CHR ''p'' = CHR ''p''"
  "lower_char CHR ''q'' = CHR ''q''"
  "lower_char CHR ''r'' = CHR ''r''"
  "lower_char CHR ''s'' = CHR ''s''"
  "lower_char CHR ''t'' = CHR ''t''"
  "lower_char CHR ''u'' = CHR ''u''"
  "lower_char CHR ''v'' = CHR ''v''"
  "lower_char CHR ''w'' = CHR ''w''"
  "lower_char CHR ''x'' = CHR ''x''"
  "lower_char CHR ''y'' = CHR ''y''"
  "lower_char CHR ''z'' = CHR ''z''"
  "lower_char CHR '' '' = CHR '' ''"
  by (simp_all add: lower_char_def is_upper_def code_def)

lemma is_word_lits:
  "is_word CHR ''a'' = True"
  "is_word CHR ''b'' = True"
  "is_word CHR ''c'' = True"
  "is_word CHR ''d'' = True"
  "is_word CHR ''e'' = True"
  "is_word CHR ''f'' = True"
  "is_word CHR ''g'' = True"
  "is_word CHR ''h'' = True"
  "is_word CHR ''i'' = True"
  "is_word CHR ''j'' = True"
  "is_word CHR ''k'' = True"
  "is_word CHR ''l'' = True"
  "is_word CHR ''m'' = True"
  "is_word CHR ''n'' = True"
  "is_word CHR ''o'' = True"
  "is_word CHR ''p'' = True"
  "is_word CHR ''q'' = True"
  "is_word CHR ''r'' = True"
  "is_word CHR ''s'' = True"
  "is_word CHR ''t'' = True"
  "is_word CHR ''u'' = True"
  "is_word CHR ''v'' = True"
  "is_word CHR ''w'' = True"
  "is_word CHR ''x'' = True"
  "is_word CHR ''y'' = True"
  "is_word CHR ''z'' = True"
  "is_word CHR '' '' = False"
  by (simp_all add: is_word_def code_def)

lemma is_space_lits:
  "is_space CHR ''a'' = False"
  "is_space CHR ''b'' = False"
  "is_space CHR ''c'' = False"
  "is_space CHR ''d'' = False"
  "is_space CHR ''e'' = False"
  "is_space CHR ''f'' = False"
  "is_space CHR ''g'' = False"
  "is_space CHR ''h'' = False"
  "is_space CHR ''i'' = False"
  "is_space CHR ''j'' = False"
  "is_space CHR ''k'' = False"
  "is_space CHR ''l'' = False"
  "is_space CHR ''m'' = False"
  "is_space CHR ''n'' = False"
  "is_space CHR ''o'' = False"
  "is_space CHR ''p'' = False"
  "is_space CHR ''q'' = False"
  "is_space CHR ''r'' = False"
  "is_space CHR ''s'' = False"
  "is_space CHR ''t'' = False"
  "is_space CHR ''u'' = False"
  "is_space CHR ''v'' = False"
  "is_space CHR ''w'' = False"
  "is_space CHR ''x'' = False"
  "is_space CHR ''y'' = False"
  "is_space CHR ''z'' = False"
  "is_space CHR '' '' = True"
  by (simp_all add: is_space_def code_def)

lemmas char_eval = lower_char_lits is_word_lits is_space_lits

section \<open>Properties of the router\<close>

lemma startswith_prefix: "startswith s k = prefix k s"
  by (induction s k rule: startswith.induct) auto

lemma py_in_sublist: "py_in k s = sublist k s"
  by (induction s) (simp_all add: startswith_prefix sublist_Cons_right)

lemma keyword_loop_count:
  "keyword_loop ks q (n, ms) =
     (n + length (filter (\<lambda>k. py_in k q) ks), ms @ map Keyword (filter (\<lambda>k. py_in k q) ks))"
  by (induction ks arbitrary: n ms) simp_all

lemma pattern_loop_count:
  "pattern_loop rs q (n, ms) =
     (n + 2 * length (filter (\<lambda>r. re_search r q) rs),
      ms @ map Pattern (filter (\<lambda>r. re_search r q) rs))"
  by (induction rs arbitrary: n ms) simp_all

lemma score_module_count:
  "fst (score_module m q) =
     length (filter (\<lambda>k. py_in k q) (keywords_of m))
     + 2 * length (filter (\<lambda>r. re_search r q) (patterns_of m))"
  by (simp add: score_module_def keyword_loop_count pattern_loop_count)

lemma distinct_keywords: "distinct (keywords_of m)"
  by (cases m) simp_all

lemma distinct_patterns: "distinct (patterns_of m)"
  by (cases m) (simp_all add: words_def)

lemma scores_analyze: "scores (analyze_query q) m = fst (score_module m (lower q))"
  by (simp add: analyze_query_def Let_def)

lemma selected_analyze:
  "selected_module (analyze_query q) =
    (let f = scores (analyze_query q); b = max_key f CAG [RAG, KAG, SLM]
     in if f b = 0 then SLM else b)"
  by (simp add: analyze_query_def Let_def)

lemma confidence_analyze:
  "confidence (analyze_query q) =
    (let f = scores (analyze_query q)
     in of_nat (f (max_key f CAG [RAG, KAG, SLM])) / of_nat (max (sum_list (map f modules)) 1))"
  by (simp add: analyze_query_def Let_def)

lemma count_card: "distinct xs \<Longrightarrow> length (filter P xs) = card {x \<in> set xs. P x}"
proof -
  assume "distinct xs"
  then have "length (filter P xs) = card ({x. P x} \<inter> set xs)"
    by (rule distinct_length_filter)
  moreover have "{x. P x} \<inter> set xs = {x \<in> set xs. P x}"
    by auto
  ultimately show ?thesis by simp
qed

lemma all_module: "(\<forall>m. P m) = (P CAG \<and> P RAG \<and> P KAG \<and> P SLM)"
  by (metis module.exhaust)

lemma no_match_score:
  assumes "\<forall>k\<in>set (keywords_of m). \<not> sublist k ql"
    and "\<forall>r\<in>set (patterns_of m). \<not> re_search r ql"
  shows "fst (score_module m ql) = 0"
proof -
  have "filter (\<lambda>k. py_in k ql) (keywords_of m) = []"
    using assms(1) by (simp add: py_in_sublist filter_empty_conv)
  moreover have "filter (\<lambda>r. re_search r ql) (patterns_of m) = []"
    using assms(2) by (simp add: filter_empty_conv)
  ultimately show ?thesis by (simp add: score_module_count)
qed

lemma score_zero_no_match:
  assumes "fst (score_module m ql) = 0"
  shows "(\<forall>k\<in>set (keywords_of m). \<not> sublist k ql) \<and> (\<forall>r\<in>set (patterns_of m). \<not> re_search r ql)"
proof -
  from assms have "filter (\<lambda>k. py_in k ql) (keywords_of m) = []"
    and "filter (\<lambda>r. re_search r ql) (patterns_of m) = []"
    by (simp_all add: score_module_count)
  then show ?thesis
    by (simp add: filter_empty_conv py_in_sublist)
qed

lemmas route_eval = score_module_def re_search_def words_def char_eval

text \<open>
  C2. For every query and every strategy, the score that \<open>analyze_query\<close> reports is the
  number of the strategy's keywords that are substrings of the lower-cased query, plus twice
  the number of its patterns that match somewhere in the lower-cased query. The score of a
  strategy depends on its own table only.
\<close>

theorem router_score:
  "scores (analyze_query q) m =
     card {k \<in> set (keywords_of m). sublist k (lower q)}
     + 2 * card {r \<in> set (patterns_of m). re_search r (lower q)}"
  by (simp add: scores_analyze score_module_count count_card distinct_keywords
      distinct_patterns py_in_sublist)

lemma lower_schedule: "lower ''schedule'' = ''schedule''"
  by (simp add: lower_def char_eval)

lemma scores_schedule:
  "scores (analyze_query ''schedule'') CAG = 3"
  "scores (analyze_query ''schedule'') RAG = 1"
  by (simp_all add: scores_analyze lower_schedule route_eval)

text \<open>One query can score against several strategies: \<open>schedule\<close> is a keyword of two.\<close>

theorem router_score_witness:
  "card {k \<in> set (keywords_of CAG). sublist k (lower ''schedule'')}
     + 2 * card {r \<in> set (patterns_of CAG). re_search r (lower ''schedule'')} = 3
   \<and> card {k \<in> set (keywords_of RAG). sublist k (lower ''schedule'')}
     + 2 * card {r \<in> set (patterns_of RAG). re_search r (lower ''schedule'')} = 1"
  using router_score [of "''schedule''" CAG] router_score [of "''schedule''" RAG]
  by (simp only: scores_schedule)

text \<open>
  C1. When two different strategies share the highest score and that score is not zero, the
  selected strategy has the highest score and comes first, in the order CAG, RAG, KAG, SLM,
  among the strategies that have it.
\<close>

theorem tie_break:
  assumes "m1 \<noteq> m2"
    and "scores (analyze_query q) m1 = scores (analyze_query q) m2"
    and "\<forall>m. scores (analyze_query q) m \<le> scores (analyze_query q) m1"
    and "0 < scores (analyze_query q) m1"
  shows "scores (analyze_query q) (selected_module (analyze_query q)) = scores (analyze_query q) m1
    \<and> (\<forall>m. scores (analyze_query q) m = scores (analyze_query q) m1
          \<longrightarrow> priority (selected_module (analyze_query q)) \<le> priority m)"
proof -
  define f where "f = scores (analyze_query q)"
  have le: "f CAG \<le> f m1" "f RAG \<le> f m1" "f KAG \<le> f m1" "f SLM \<le> f m1"
    using assms(3) by (simp_all add: f_def)
  have pos: "0 < f m1"
    using assms(4) by (simp add: f_def)
  have sel: "selected_module (analyze_query q) =
      (if f (max_key f CAG [RAG, KAG, SLM]) = 0 then SLM else max_key f CAG [RAG, KAG, SLM])"
    by (simp add: selected_analyze f_def Let_def)
  show ?thesis
    unfolding sel f_def [symmetric] all_module
    using le pos by (cases m1) (auto split: if_splits)
qed

lemma lower_new_fire: "lower ''new fire'' = ''new fire''"
  by (simp add: lower_def char_eval)

lemma scores_new_fire:
  "scores (analyze_query ''new fire'') CAG = 3"
  "scores (analyze_query ''new fire'') RAG = 3"
  "scores (analyze_query ''new fire'') KAG = 0"
  "scores (analyze_query ''new fire'') SLM = 0"
  by (simp_all add: scores_analyze lower_new_fire route_eval)

theorem tie_break_witness:
  "CAG \<noteq> RAG
   \<and> scores (analyze_query ''new fire'') CAG = scores (analyze_query ''new fire'') RAG
   \<and> 0 < scores (analyze_query ''new fire'') CAG
   \<and> selected_module (analyze_query ''new fire'') = CAG"
proof -
  have 1: "CAG \<noteq> RAG" by simp
  have 2: "scores (analyze_query ''new fire'') CAG = scores (analyze_query ''new fire'') RAG"
    by (simp only: scores_new_fire)
  have 3: "\<forall>m. scores (analyze_query ''new fire'') m \<le> scores (analyze_query ''new fire'') CAG"
    unfolding all_module scores_new_fire by simp
  have 4: "0 < scores (analyze_query ''new fire'') CAG"
    unfolding scores_new_fire by simp
  have "priority (selected_module (analyze_query ''new fire'')) \<le> priority CAG"
    by (rule tie_break [OF 1 2 3 4, THEN conjunct2, rule_format]) (rule refl)
  then have 5: "selected_module (analyze_query ''new fire'') = CAG"
    by (cases "selected_module (analyze_query ''new fire'')") simp_all
  from 1 2 4 5 show ?thesis by (intro conjI)
qed

text \<open>
  C8. When no keyword and no pattern of any strategy matches the lower-cased query, the
  router selects SLM, every score is 0 and the confidence is 0.
\<close>

theorem all_zero_fallback:
  assumes "\<forall>m. (\<forall>k\<in>set (keywords_of m). \<not> sublist k (lower q))
             \<and> (\<forall>r\<in>set (patterns_of m). \<not> re_search r (lower q))"
  shows "selected_module (analyze_query q) = SLM
    \<and> (\<forall>m. scores (analyze_query q) m = 0)
    \<and> confidence (analyze_query q) = 0"
proof -
  have z: "scores (analyze_query q) m = 0" for m
    using assms by (simp add: scores_analyze no_match_score)
  show ?thesis
    by (simp add: selected_analyze confidence_analyze z Let_def)
qed

lemma lower_random: "lower ''random unrelated words'' = ''random unrelated words''"
  by (simp add: lower_def char_eval)

lemma scores_random: "fst (score_module m ''random unrelated words'') = 0"
  by (cases m) (simp_all add: route_eval)

theorem all_zero_fallback_witness:
  "selected_module (analyze_query ''random unrelated words'') = SLM
    \<and> (\<forall>m. scores (analyze_query ''random unrelated words'') m = 0)
    \<and> confidence (analyze_query ''random unrelated words'') = 0"
proof -
  have "\<forall>m. (\<forall>k\<in>set (keywords_of m). \<not> sublist k (lower ''random unrelated words''))
      \<and> (\<forall>r\<in>set (patterns_of m). \<not> re_search r (lower ''random unrelated words''))"
    unfolding lower_random using score_zero_no_match [OF scores_random] by blast
  then show ?thesis
    by (rule all_zero_fallback)
qed

section \<open>Properties of the SLM module\<close>

lemma fallback_response_nonempty:
  "dict_get fallback_responses t (dict_get fallback_responses ''default'' []) \<noteq> []"
  by (simp add: dict_get_def fallback_responses_def nl_def apostrophe_def)

lemma slm_fallback_found:
  "success (slm_fallback q) \<and> (\<exists>d. data (slm_fallback q) = Some d \<and> response d \<noteq> [])"
  by (simp add: slm_fallback_def Let_def fallback_response_nonempty)

text \<open>
  C4. For every state of the module, every behaviour of the text-completion service and
  every query, \<open>get_response\<close> reports success and carries a response text that is not
  empty.
\<close>

theorem conversational_total:
  "success (slm_get_response m q)
   \<and> (\<exists>d. data (slm_get_response m q) = Some d \<and> response d \<noteq> [])"
proof (cases "if client_available m then generate_openai_response m q else None")
  case None
  then show ?thesis
    by (simp add: slm_get_response_def slm_fallback_found)
next
  case (Some r)
  then show ?thesis
    by (cases "r = []") (simp_all add: slm_get_response_def slm_fallback_found)
qed

lemma lower_hello: "lower ''hello'' = ''hello''"
  by (simp add: lower_def char_eval)

theorem conversational_total_witness:
  "success (slm_get_response offline_slm ''hello'')
   \<and> (\<exists>d. data (slm_get_response offline_slm ''hello'') = Some d \<and> response d \<noteq> [])
   \<and> map_option query_type (data (slm_get_response offline_slm ''hello'')) = Some (Some ''greeting'')"
proof -
  have "map_option query_type (data (slm_get_response offline_slm ''hello'')) = Some (Some ''greeting'')"
    by (simp add: slm_get_response_def offline_slm_def slm_fallback_def classify_query_type_def
        lower_hello Let_def)
  with conversational_total [of offline_slm "''hello''"] show ?thesis
    by simp
qed

section \<open>Properties of the CAG module\<close>

lemma keyword_scan_hit:
  assumes "(keyword, key) \<in> set table" and "py_in keyword q" and "map_of category_data key \<noteq> None"
  shows "\<exists>hit. keyword_scan table category_data q = Some hit"
  using assms by (induction table) (auto split: option.splits)

lemma keyword_scan_sound:
  assumes "keyword_scan table category_data q = Some (keyword, key, v)"
  shows "(keyword, key) \<in> set table \<and> py_in keyword q \<and> map_of category_data key = Some v"
  using assms by (induction table) (auto split: option.splits if_splits)

lemma info_scan_hit:
  assumes "(keyword, ik) \<in> set table" and "py_in keyword q"
    and "\<And>k. ik = One k \<Longrightarrow> map_of quick_data k \<noteq> None"
  shows "\<exists>r. info_scan table quick_data q = Some r
              \<and> (result_type r = ''quick_info'' \<or> result_type r = ''websites'')"
  using assms
proof (induction table)
  case Nil
  then show ?case by simp
next
  case (Cons entry table)
  obtain k1 ik1 where entry: "entry = (k1, ik1)"
    by (cases entry)
  show ?case
  proof (cases "py_in k1 q")
    case False
    with Cons entry show ?thesis by auto
  next
    case hit: True
    show ?thesis
    proof (cases ik1)
      case (Many ks)
      with hit entry show ?thesis by simp
    next
      case (One k)
      show ?thesis
      proof (cases "map_of quick_data k")
        case (Some v)
        with hit entry One show ?thesis by simp
      next
        case None
        with Cons.prems One entry have "(keyword, ik) \<in> set table"
          by auto
        with Cons None hit entry One show ?thesis by simp
      qed
    qed
  qed
qed

lemma table_entry:
  "(keyword, One k) \<in> set (map (apsnd One) table) \<Longrightarrow> (keyword, k) \<in> set table"
  by (induction table) auto

lemma table_entry_One:
  "(keyword, ik) \<in> set (map (apsnd One) table) \<Longrightarrow> \<exists>k. ik = One k"
  by (induction table) auto

lemma emergency_hit:
  assumes "(keyword, One k) \<in> set (table_of Emergency)" and "py_in keyword q"
    and "has_key m Emergency (One k)"
  shows "\<exists>r. search_emergency_contacts m q = Some r \<and> result_type r = ''emergency_contact''"
proof -
  from assms(1) have mem: "(keyword, k) \<in> set emergency_keywords"
    by (simp only: table_of.simps table_entry)
  from assms(3) have key: "map_of (dict_get (cache_data m) ''emergency_contacts'' []) k \<noteq> None"
    by simp
  from keyword_scan_hit [OF mem assms(2) key] obtain hit where
    hit: "keyword_scan emergency_keywords (dict_get (cache_data m) ''emergency_contacts'' []) q = Some hit"
    by (rule exE)
  obtain a b c where "hit = (a, b, c)"
    by (cases hit)
  with hit show ?thesis
    by (simp add: search_emergency_contacts_def)
qed

lemma government_hit:
  assumes "(keyword, One k) \<in> set (table_of Government)" and "py_in keyword q"
    and "has_key m Government (One k)"
  shows "\<exists>r. search_government_contacts m q = Some r \<and> result_type r = ''government_contact''"
proof -
  from assms(1) have mem: "(keyword, k) \<in> set gov_keywords"
    by (simp only: table_of.simps table_entry)
  from assms(3) have key: "map_of (dict_get (cache_data m) ''government_contacts'' []) k \<noteq> None"
    by simp
  from keyword_scan_hit [OF mem assms(2) key] obtain hit where
    hit: "keyword_scan gov_keywords (dict_get (cache_data m) ''government_contacts'' []) q = Some hit"
    by (rule exE)
  obtain a b c where "hit = (a, b, c)"
    by (cases hit)
  with hit show ?thesis
    by (simp add: search_government_contacts_def)
qed

lemma civic_hit:
  assumes "(keyword, One k) \<in> set (table_of Civic_services)" and "py_in keyword q"
    and "has_key m Civic_services (One k)"
  shows "\<exists>r. search_civic_services m q = Some r \<and> result_type r = ''civic_service''"
proof -
  from assms(1) have mem: "(keyword, k) \<in> set service_keywords"
    by (simp only: table_of.simps table_entry)
  from assms(3) have key: "map_of (dict_get (cache_data m) ''civic_services_helplines'' []) k \<noteq> None"
    by simp
  from keyword_scan_hit [OF mem assms(2) key] obtain hit where
    hit: "keyword_scan service_keywords (dict_get (cache_data m) ''civic_services_helplines'' []) q = Some hit"
    by (rule exE)
  obtain a b c where "hit = (a, b, c)"
    by (cases hit)
  with hit show ?thesis
    by (simp add: search_civic_services_def)
qed

lemma zone_hit:
  assumes "(keyword, One k) \<in> set (table_of Zone)" and "py_in keyword q"
    and "has_key m Zone (One k)"
  shows "\<exists>r. search_zone_info m q = Some r \<and> result_type r = ''zone_contact''"
proof -
  from assms(1) have mem: "(keyword, k) \<in> set zone_keywords"
    by (simp only: table_of.simps table_entry)
  from assms(3) have key: "map_of (dict_get (cache_data m) ''zone_contacts'' []) k \<noteq> None"
    by simp
  from keyword_scan_hit [OF mem assms(2) key] obtain hit where
    hit: "keyword_scan zone_keywords (dict_get (cache_data m) ''zone_contacts'' []) q = Some hit"
    by (rule exE)
  obtain a b c where "hit = (a, b, c)"
    by (cases hit)
  with hit show ?thesis
    by (simp add: search_zone_info_def)
qed

lemma quick_hit:
  assumes "(keyword, ik) \<in> set (table_of Quick)" and "py_in keyword q"
    and "has_key m Quick ik"
  shows "\<exists>r. search_quick_info m q = Some r
              \<and> (result_type r = ''quick_info'' \<or> result_type r = ''websites'')"
  unfolding search_quick_info_def
proof (rule info_scan_hit)
  from assms(1) show "(keyword, ik) \<in> set info_keywords" by simp
  from assms(2) show "py_in keyword q" .
  fix k assume "ik = One k"
  with assms(3) show "map_of (dict_get (cache_data m) ''quick_info'' []) k \<noteq> None" by simp
qed

lemma search_cache_branch:
  assumes "first_pass (lower query) c"
  shows "search_cache m query =
    (case c of
       Emergency \<Rightarrow> search_emergency_contacts m (lower query)
     | Government \<Rightarrow> search_government_contacts m (lower query)
     | Civic_services \<Rightarrow> search_civic_services m (lower query)
     | Zone \<Rightarrow> search_zone_info m (lower query)
     | Quick \<Rightarrow> search_quick_info m (lower query))"
  using assms by (cases c) (simp_all add: first_pass_def search_cache_def)

lemma category_hit:
  assumes "first_pass (lower query) c" and "(keyword, ik) \<in> set (table_of c)"
    and "sublist keyword (lower query)" and "has_key m c ik"
  shows "\<exists>r. search_cache m query = Some r \<and> result_type r \<in> set (types_of c)"
proof -
  note branch = search_cache_branch [OF assms(1), of m]
  from assms(3) have kw: "py_in keyword (lower query)"
    by (simp add: py_in_sublist)
  show ?thesis
  proof (cases c)
    case Emergency
    with assms(2) obtain k where k: "ik = One k"
      by (auto dest: table_entry_One)
    from assms(2,4) have "\<exists>r. search_emergency_contacts m (lower query) = Some r
        \<and> result_type r = ''emergency_contact''"
      unfolding Emergency k by (rule emergency_hit [OF _ kw])
    with branch show ?thesis
      unfolding Emergency by simp
  next
    case Government
    with assms(2) obtain k where k: "ik = One k"
      by (auto dest: table_entry_One)
    from assms(2,4) have "\<exists>r. search_government_contacts m (lower query) = Some r
        \<and> result_type r = ''government_contact''"
      unfolding Government k by (rule government_hit [OF _ kw])
    with branch show ?thesis
      unfolding Government by simp
  next
    case Civic_services
    with assms(2) obtain k where k: "ik = One k"
      by (auto dest: table_entry_One)
    from assms(2,4) have "\<exists>r. search_civic_services m (lower query) = Some r
        \<and> result_type r = ''civic_service''"
      unfolding Civic_services k by (rule civic_hit [OF _ kw])
    with branch show ?thesis
      unfolding Civic_services by simp
  next
    case Zone
    with assms(2) obtain k where k: "ik = One k"
      by (auto dest: table_entry_One)
    from assms(2,4) have "\<exists>r. search_zone_info m (lower query) = Some r
        \<and> result_type r = ''zone_contact''"
      unfolding Zone k by (rule zone_hit [OF _ kw])
    with branch show ?thesis
      unfolding Zone by simp
  next
    case Quick
    from assms(2,4) have "\<exists>r. search_quick_info m (lower query) = Some r
        \<and> (result_type r = ''quick_info'' \<or> result_type r = ''websites'')"
      unfolding Quick by (rule quick_hit [OF _ kw])
    with branch show ?thesis
      unfolding Quick by auto
  qed
qed

lemma title_keywords:
  "title ''fire'' = ''Fire''"
  "title ''mayor'' = ''Mayor''"
  "title ''property tax'' = ''Property Tax''"
  "title ''north'' = ''North''"
  "title ''north east'' = ''North East''"
  "title ''central'' = ''Central''"
  "title ''south west'' = ''South West''"
  "title ''south'' = ''South''"
  "title ''adyar'' = ''Adyar''"
  "title ''anna nagar'' = ''Anna Nagar''"
  "title ''teynampet'' = ''Teynampet''"
  by (simp_all add: title_def is_ascii_letter_def upper_char_def lower_char_def is_upper_def
      code_def char_of_def bit_0)

lemma lower_fire_emergency_number: "lower ''fire emergency number'' = ''fire emergency number''"
  by (simp add: lower_def char_eval)

lemma lower_property_tax: "lower ''property tax'' = ''property tax''"
  by (simp add: lower_def char_eval)

lemma lower_fire: "lower ''fire'' = ''fire''"
  by (simp add: lower_def char_eval)

lemma lower_mayor_property_tax: "lower ''mayor property tax'' = ''mayor property tax''"
  by (simp add: lower_def char_eval)

lemma fire_emergency_number:
  assumes "map_of (dict_get (cache_data m) ''emergency_contacts'' []) ''fire'' = Some v"
  shows "search_cache m ''fire emergency number'' = Some (Emergency_contact ''Fire'' v ''24x7'')"
proof -
  have "any_in emergency_gate ''fire emergency number''"
    by (simp add: emergency_gate_def)
  moreover have "keyword_scan emergency_keywords (dict_get (cache_data m) ''emergency_contacts'' [])
      ''fire emergency number'' = Some (''fire'', ''fire'', v)"
    using assms by (simp add: emergency_keywords_def)
  ultimately show ?thesis
    by (simp add: search_cache_def lower_fire_emergency_number search_emergency_contacts_def
        title_keywords)
qed

text \<open>
  C6, amended. Let the lower-cased query pass the first-pass test of a category and of no
  category tested before it, and let it contain a keyword of the table of that category whose
  cache key the cache has in that category. Then \<open>search_cache\<close> finds a result, its type
  is a type of that category, and \<open>get_response\<close> reports success. On every cache that
  has the key \<open>fire\<close> among its emergency contacts, the query \<open>fire emergency number\<close>
  yields the emergency contact \<open>Fire\<close> with the configured number.
\<close>

theorem cache_round_trip:
  "(first_pass (lower query) c \<and> (keyword, ik) \<in> set (table_of c)
      \<and> sublist keyword (lower query) \<and> has_key m c ik
    \<longrightarrow> (\<exists>r. search_cache m query = Some r \<and> result_type r \<in> set (types_of c)
             \<and> success (cag_get_response m query)))
   \<and> (map_of (dict_get (cache_data m) ''emergency_contacts'' []) ''fire'' = Some v
    \<longrightarrow> search_cache m ''fire emergency number'' = Some (Emergency_contact ''Fire'' v ''24x7''))"
proof (intro conjI impI)
  assume "first_pass (lower query) c \<and> (keyword, ik) \<in> set (table_of c)
      \<and> sublist keyword (lower query) \<and> has_key m c ik"
  then obtain r where "search_cache m query = Some r" and "result_type r \<in> set (types_of c)"
    using category_hit [of query c keyword ik m] by blast
  then show "\<exists>r. search_cache m query = Some r \<and> result_type r \<in> set (types_of c)
             \<and> success (cag_get_response m query)"
    by (simp add: cag_get_response_def)
next
  assume "map_of (dict_get (cache_data m) ''emergency_contacts'' []) ''fire'' = Some v"
  then show "search_cache m ''fire emergency number'' = Some (Emergency_contact ''Fire'' v ''24x7'')"
    by (rule fire_emergency_number)
qed

theorem cache_round_trip_witness:
  "(\<exists>r. search_cache \<lparr>cache_data = civic_cache\<rparr> ''property tax'' = Some r
        \<and> result_type r \<in> set (types_of Civic_services)
        \<and> success (cag_get_response \<lparr>cache_data = civic_cache\<rparr> ''property tax''))
   \<and> search_cache \<lparr>cache_data = civic_cache\<rparr> ''fire emergency number''
       = Some (Emergency_contact ''Fire'' ''101'' ''24x7'')"
proof -
  have 1: "first_pass (lower ''property tax'') Civic_services"
    by (simp add: lower_property_tax first_pass_def emergency_gate_def government_gate_def
        civic_gate_def)
  have 2: "(''property tax'', One ''property_tax'') \<in> set (table_of Civic_services)"
    by (simp add: service_keywords_def)
  have 3: "sublist ''property tax'' (lower ''property tax'')"
    by (simp add: lower_property_tax)
  have 4: "has_key \<lparr>cache_data = civic_cache\<rparr> Civic_services (One ''property_tax'')"
    by (simp add: dict_get_def civic_cache_def)
  have 5: "map_of (dict_get (cache_data \<lparr>cache_data = civic_cache\<rparr>) ''emergency_contacts'' []) ''fire''
      = Some ''101''"
    by (simp add: dict_get_def civic_cache_def)
  from cache_round_trip [of "''property tax''" Civic_services "''property tax''"
      "One ''property_tax''" "\<lparr>cache_data = civic_cache\<rparr>" "''101''"] 1 2 3 4 5
  show ?thesis
    by blast
qed

theorem cache_round_trip_counterexample:
  "(''fire'', One ''fire'') \<in> set (table_of Emergency)
   \<and> sublist ''fire'' (lower ''fire'')
   \<and> has_key \<lparr>cache_data = civic_cache\<rparr> Emergency (One ''fire'')
   \<and> search_cache \<lparr>cache_data = civic_cache\<rparr> ''fire'' = None
   \<and> \<not> success (cag_get_response \<lparr>cache_data = civic_cache\<rparr> ''fire'')
   \<and> (''property tax'', One ''property_tax'') \<in> set (table_of Civic_services)
   \<and> sublist ''property tax'' (lower ''mayor property tax'')
   \<and> has_key \<lparr>cache_data = civic_cache\<rparr> Civic_services (One ''property_tax'')
   \<and> search_cache \<lparr>cache_data = civic_cache\<rparr> ''mayor property tax''
       = Some (Government_contact ''Mayor'' ''044-25384681'' ''Office hours (9:30 AM - 5:30 PM)'')"
proof -
  have 1: "(''fire'', One ''fire'') \<in> set (table_of Emergency)"
    by (simp add: emergency_keywords_def)
  have 2: "sublist ''fire'' (lower ''fire'')"
    by (simp add: lower_fire)
  have 3: "has_key \<lparr>cache_data = civic_cache\<rparr> Emergency (One ''fire'')"
    by (simp add: dict_get_def civic_cache_def)
  have 4: "search_cache \<lparr>cache_data = civic_cache\<rparr> ''fire'' = None"
    by (simp add: search_cache_def lower_fire emergency_gate_def government_gate_def
        civic_gate_def zone_gate_def quick_gate_def)
  have 5: "\<not> success (cag_get_response \<lparr>cache_data = civic_cache\<rparr> ''fire'')"
    by (simp add: cag_get_response_def 4)
  have 6: "(''property tax'', One ''property_tax'') \<in> set (table_of Civic_services)"
    by (simp add: service_keywords_def)
  have 7: "sublist ''property tax'' (lower ''mayor property tax'')"
    by (simp add: lower_mayor_property_tax py_in_sublist [symmetric])
  have 8: "has_key \<lparr>cache_data = civic_cache\<rparr> Civic_services (One ''property_tax'')"
    by (simp add: dict_get_def civic_cache_def)
  have 9: "search_cache \<lparr>cache_data = civic_cache\<rparr> ''mayor property tax''
       = Some (Government_contact ''Mayor'' ''044-25384681'' ''Office hours (9:30 AM - 5:30 PM)'')"
    by (simp add: search_cache_def lower_mayor_property_tax emergency_gate_def
        government_gate_def search_government_contacts_def gov_keywords_def dict_get_def
        civic_cache_def title_keywords)
  from 1 2 3 4 5 6 7 8 9 show ?thesis
    by blast
qed

lemma north_in_north_east: "py_in ''north east'' q \<Longrightarrow> py_in ''north'' q"
proof -
  assume "py_in ''north east'' q"
  then have "sublist ''north east'' q"
    by (simp only: py_in_sublist)
  with sublist_appendI [of "''north''" "[]" "'' east''"] have "sublist ''north'' q"
    by (auto intro: sublist_order.order_trans)
  then show ?thesis
    by (simp only: py_in_sublist)
qed

lemma zone_scan_north:
  assumes "map_of zones_data ''zone_1_north'' = Some v" and "py_in ''north'' q"
  shows "keyword_scan zone_keywords zones_data q = Some (''north'', ''zone_1_north'', v)"
  using assms by (simp add: zone_keywords_def)

lemma zone_titles:
  assumes "(keyword, key) \<in> set zone_keywords" and "keyword \<noteq> ''north east''"
  shows "title keyword \<noteq> ''North East''"
  using assms by (auto simp add: zone_keywords_def title_keywords)

lemma lower_north_east_zone: "lower ''north east zone'' = ''north east zone''"
  by (simp add: lower_def char_eval)

text \<open>
  C9, amended. On every cache whose zone contacts have the key \<open>zone_1_north\<close>, as
  the shipped cache has, the zone search returns for no query the contact of the keyword
  \<open>north east\<close>, and for every query that contains \<open>north east\<close> it returns the
  contact of Zone 1 (North).
\<close>

theorem zone_shadowing:
  assumes "map_of (dict_get (cache_data m) ''zone_contacts'' []) ''zone_1_north'' = Some v"
  shows "(\<forall>number info.
            search_zone_info m q \<noteq> Some (Zone_contact ''North East'' number info))
       \<and> (sublist ''north east'' q \<longrightarrow>
            search_zone_info m q
              = Some (Zone_contact ''North'' v ''Water supply, complaints, maintenance''))"
proof (cases "py_in ''north'' q")
  case True
  with assms have "search_zone_info m q
      = Some (Zone_contact ''North'' v ''Water supply, complaints, maintenance'')"
    by (simp add: search_zone_info_def zone_scan_north title_keywords)
  then show ?thesis
    by simp
next
  case False
  then have no: "\<not> py_in ''north east'' q"
    using north_in_north_east by blast
  have "search_zone_info m q \<noteq> Some (Zone_contact ''North East'' number info)"
    for number info
  proof (cases "keyword_scan zone_keywords (dict_get (cache_data m) ''zone_contacts'' []) q")
    case None
    then show ?thesis
      by (simp add: search_zone_info_def)
  next
    case (Some hit)
    obtain keyword key c where hit: "hit = (keyword, key, c)"
      by (cases hit)
    with Some have "keyword_scan zone_keywords (dict_get (cache_data m) ''zone_contacts'' []) q
        = Some (keyword, key, c)"
      by simp
    from keyword_scan_sound [OF this]
    have "(keyword, key) \<in> set zone_keywords" and "py_in keyword q"
      by simp_all
    with no have "title keyword \<noteq> ''North East''"
      using zone_titles by blast
    with Some hit show ?thesis
      by (simp add: search_zone_info_def)
  qed
  with no show ?thesis
    by (simp add: py_in_sublist)
qed

theorem zone_shadowing_witness:
  "search_zone_info \<lparr>cache_data = civic_cache\<rparr> ''north east zone''
     = Some (Zone_contact ''North'' ''044-28451300 Ext.233'' ''Water supply, complaints, maintenance'')
   \<and> search_cache \<lparr>cache_data = civic_cache\<rparr> ''north east zone''
     = Some (Zone_contact ''North'' ''044-28451300 Ext.233'' ''Water supply, complaints, maintenance'')"
proof -
  have 1: "map_of (dict_get (cache_data \<lparr>cache_data = civic_cache\<rparr>) ''zone_contacts'' [])
      ''zone_1_north'' = Some ''044-28451300 Ext.233''"
    by (simp add: dict_get_def civic_cache_def)
  have 2: "sublist ''north east'' ''north east zone''"
    by (simp add: py_in_sublist [symmetric])
  have 3: "search_cache \<lparr>cache_data = civic_cache\<rparr> ''north east zone''
      = search_zone_info \<lparr>cache_data = civic_cache\<rparr> ''north east zone''"
    by (simp add: search_cache_def lower_north_east_zone emergency_gate_def government_gate_def
        civic_gate_def zone_gate_def)
  from zone_shadowing [OF 1, of "''north east zone''"] 2 3 show ?thesis
    by simp
qed

theorem zone_shadowing_counterexample:
  "search_zone_info \<lparr>cache_data = north_east_only\<rparr> ''north east zone''
     = Some (Zone_contact ''North East'' ''044-28451300 Ext.213''
              ''Water supply, complaints, maintenance'')
   \<and> search_cache \<lparr>cache_data = north_east_only\<rparr> ''north east zone''
     = Some (Zone_contact ''North East'' ''044-28451300 Ext.213''
              ''Water supply, complaints, maintenance'')"
proof -
  have 1: "search_zone_info \<lparr>cache_data = north_east_only\<rparr> ''north east zone''
     = Some (Zone_contact ''North East'' ''044-28451300 Ext.213''
              ''Water supply, complaints, maintenance'')"
    by (simp add: search_zone_info_def zone_keywords_def dict_get_def north_east_only_def
        title_keywords)
  have 2: "search_cache \<lparr>cache_data = north_east_only\<rparr> ''north east zone''
      = search_zone_info \<lparr>cache_data = north_east_only\<rparr> ''north east zone''"
    by (simp add: search_cache_def lower_north_east_zone emergency_gate_def government_gate_def
        civic_gate_def zone_gate_def)
  from 1 2 show ?thesis
    by simp
qed

section \<open>Properties of the RAG module\<close>

lemma search_web_two: "length (search_web q 2) = 2"
  by (simp add: search_web_def mock_results_def)

text \<open>
  C10. For every state of the module (its chunks, its index or the lack of one, whatever
  the index answers) and every query, \<open>search_web\<close> gives two results, and
  \<open>get_response\<close> reports success with the documents found and these two web sources;
  its message is never that of the failure branch.
\<close>

theorem document_strategy_total:
  "length (search_web q 2) = 2
   \<and> success (rag_get_response m q)
   \<and> data (rag_get_response m q)
       = Some \<lparr>documents_found = search_documents m q 3, web_sources = search_web q 2,
               total_sources = length (search_documents m q 3) + 2\<rparr>
   \<and> message (rag_get_response m q) \<noteq> Some ''No relevant documents or web sources found''"
proof -
  have "search_web q 2 \<noteq> []"
    using search_web_two [of q] by auto
  then show ?thesis
    by (simp add: rag_get_response_def Let_def search_web_two)
qed

theorem document_strategy_total_witness:
  "success (rag_get_response empty_rag ''water'')
   \<and> map_option total_sources (data (rag_get_response empty_rag ''water'')) = Some 2
   \<and> map_option documents_found (data (rag_get_response empty_rag ''water'')) = Some []"
proof -
  have "search_documents empty_rag ''water'' 3 = []"
    by (simp add: search_documents_def empty_rag_def)
  with document_strategy_total [of "''water''" empty_rag] show ?thesis
    by simp
qed

lemma is_space_nl: "is_space (CHR 0x0A)"
  by (simp add: is_space_def code_def)

lemma strip_parts:
  "\<exists>l t. s = l @ strip s @ t \<and> list_all is_space l \<and> list_all is_space t"
proof -
  define d where "d = dropWhile is_space s"
  have "rev (dropWhile is_space (rev d)) @ rev (takeWhile is_space (rev d))
      = rev (takeWhile is_space (rev d) @ dropWhile is_space (rev d))"
    by (simp only: rev_append)
  also have "\<dots> = d"
    by (simp only: takeWhile_dropWhile_id rev_rev_ident)
  finally have "d = strip s @ rev (takeWhile is_space (rev d))"
    by (simp only: strip_def d_def)
  moreover have "s = takeWhile is_space s @ d"
    by (simp add: d_def)
  ultimately have "s = takeWhile is_space s @ strip s @ rev (takeWhile is_space (rev d))"
    by simp
  moreover have "list_all is_space (takeWhile is_space s)"
    by (auto simp add: list_all_iff dest: set_takeWhileD)
  moreover have "list_all is_space (rev (takeWhile is_space (rev d)))"
    by (auto simp add: list_all_iff dest: set_takeWhileD)
  ultimately show ?thesis
    by blast
qed

lemma strip_empty: "strip s = [] \<Longrightarrow> list_all is_space s"
  using strip_parts [of s] by auto

lemma weave_gap:
  "length gs = length bs \<Longrightarrow> weave (gs @ [g]) bs @ w = weave (gs @ [g @ w]) bs"
  by (induction gs bs rule: list_induct2) simp_all

lemma weave_body:
  "length gs = length bs \<Longrightarrow>
     weave (gs @ [g]) bs @ l @ b @ t = weave (gs @ [g @ l, t]) (bs @ [b])"
  by (induction gs bs rule: list_induct2) simp_all

lemma woven_gap:
  assumes "length gaps = length bs + 1" and "list_all (list_all is_space) gaps"
    and "pre = weave gaps bs" and "list_all is_space w"
  shows "\<exists>gaps'. length gaps' = length bs + 1 \<and> list_all (list_all is_space) gaps'
           \<and> pre @ w = weave gaps' bs"
proof -
  from assms(1) obtain gs g where gaps: "gaps = gs @ [g]" and len: "length gs = length bs"
    by (cases gaps rule: rev_cases) auto
  have "pre @ w = weave (gs @ [g @ w]) bs"
    unfolding assms(3) gaps by (rule weave_gap [OF len])
  moreover have "list_all (list_all is_space) (gs @ [g @ w])"
    using assms(2,4) by (simp add: gaps)
  moreover have "length (gs @ [g @ w]) = length bs + 1"
    using len by simp
  ultimately show ?thesis
    by blast
qed

lemma woven_body:
  assumes "length gaps = length bs + 1" and "list_all (list_all is_space) gaps"
    and "pre = weave gaps bs" and "list_all is_space l" and "list_all is_space t"
  shows "\<exists>gaps'. length gaps' = length (bs @ [b]) + 1 \<and> list_all (list_all is_space) gaps'
           \<and> pre @ l @ b @ t = weave gaps' (bs @ [b])"
proof -
  from assms(1) obtain gs g where gaps: "gaps = gs @ [g]" and len: "length gs = length bs"
    by (cases gaps rule: rev_cases) auto
  have "pre @ l @ b @ t = weave (gs @ [g @ l, t]) (bs @ [b])"
    unfolding assms(3) gaps by (rule weave_body [OF len])
  moreover have "list_all (list_all is_space) (gs @ [g @ l, t])"
    using assms(2,4,5) by (simp add: gaps)
  moreover have "length (gs @ [g @ l, t]) = length (bs @ [b]) + 1"
    using len by simp
  ultimately show ?thesis
    by blast
qed

lemma split_paragraphs_nonempty: "split_paragraphs s \<noteq> []"
  by (induction s rule: split_paragraphs.induct) (simp_all split: list.splits)

lemma join_paragraphs:
  "concat (map (\<lambda>p. p @ nl @ nl) (split_paragraphs s)) = s @ nl @ nl"
proof (induction s rule: split_paragraphs.induct)
  case 1
  show ?case by simp
next
  case (2 c)
  show ?case by simp
next
  case (3 c d cs)
  show ?case
  proof (cases "[c] = nl \<and> [d] = nl")
    case True
    then have "c # d # cs = nl @ nl @ cs"
      by (simp add: nl_def)
    with True 3 show ?thesis
      by simp
  next
    case False
    with 3 have IH: "concat (map (\<lambda>p. p @ nl @ nl) (split_paragraphs (d # cs)))
        = (d # cs) @ nl @ nl"
      by simp
    have unfold: "split_paragraphs (c # d # cs)
        = (case split_paragraphs (d # cs) of [] \<Rightarrow> [[c]] | para # rest \<Rightarrow> (c # para) # rest)"
      by (subst split_paragraphs.simps) (rule if_not_P [OF False])
    obtain para rest where "split_paragraphs (d # cs) = para # rest"
      using split_paragraphs_nonempty [of "d # cs"] by (cases "split_paragraphs (d # cs)") auto
    with IH show ?thesis
      unfolding unfold by simp
  qed
qed

lemma split_loop_woven:
  assumes "split_loop filename chunk_size ps (chunks, current_chunk, n) = (chunks', current', n')"
    and "\<exists>gaps. length gaps = length (map chunk_content chunks) + 1
           \<and> list_all (list_all is_space) gaps \<and> pre = weave gaps (map chunk_content chunks)"
  shows "\<exists>pre'. pre' @ current' = pre @ current_chunk @ concat (map (\<lambda>p. p @ nl @ nl) ps)
           \<and> (\<exists>gaps. length gaps = length (map chunk_content chunks') + 1
                 \<and> list_all (list_all is_space) gaps
                 \<and> pre' = weave gaps (map chunk_content chunks'))"
  using assms
proof (induction ps arbitrary: chunks current_chunk n pre)
  case Nil
  then show ?case by simp
next
  case (Cons para rest)
  from Cons.prems(2) obtain gaps where gaps: "length gaps = length (map chunk_content chunks) + 1"
    "list_all (list_all is_space) gaps" "pre = weave gaps (map chunk_content chunks)"
    by blast
  show ?case
  proof (cases "int (length (current_chunk @ para)) < chunk_size")
    case True
    with Cons.prems(1) have "split_loop filename chunk_size rest
        (chunks, current_chunk @ para @ nl @ nl, n) = (chunks', current', n')"
      by simp
    from Cons.IH [OF this Cons.prems(2)] show ?thesis
      by simp
  next
    case False
    show ?thesis
    proof (cases "strip current_chunk = []")
      case True
      with Cons.prems(1) False have loop: "split_loop filename chunk_size rest
          (chunks, para @ nl @ nl, n) = (chunks', current', n')"
        by simp
      from True have "list_all is_space current_chunk"
        by (rule strip_empty)
      from woven_gap [OF gaps this] have "\<exists>gaps'. length gaps' = length (map chunk_content chunks) + 1
          \<and> list_all (list_all is_space) gaps'
          \<and> pre @ current_chunk = weave gaps' (map chunk_content chunks)" .
      from Cons.IH [OF loop this] show ?thesis
        by simp
    next
      case nonempty: False
      with Cons.prems(1) False have loop: "split_loop filename chunk_size rest
          (chunks @ [make_chunk filename n current_chunk], para @ nl @ nl, n + 1)
          = (chunks', current', n')"
        by simp
      obtain l t where parts: "current_chunk = l @ strip current_chunk @ t"
        and l: "list_all is_space l" and t: "list_all is_space t"
        using strip_parts [of current_chunk] by blast
      from woven_body [OF gaps l t, of "strip current_chunk"] parts
      have "\<exists>gaps'. length gaps'
            = length (map chunk_content (chunks @ [make_chunk filename n current_chunk])) + 1
          \<and> list_all (list_all is_space) gaps'
          \<and> pre @ current_chunk
            = weave gaps' (map chunk_content (chunks @ [make_chunk filename n current_chunk]))"
        by (simp add: make_chunk_def)
      from Cons.IH [OF loop this] show ?thesis
        by simp
    qed
  qed
qed

lemma split_loop_separator:
  assumes "split_loop filename chunk_size ps (chunks, current_chunk, n) = (chunks', current', n')"
    and "ps \<noteq> [] \<or> (\<exists>y. current_chunk = y @ nl @ nl)"
  shows "\<exists>y. current' = y @ nl @ nl"
  using assms
proof (induction ps arbitrary: chunks current_chunk n)
  case Nil
  then show ?case by simp
next
  case (Cons para rest)
  have 1: "rest \<noteq> [] \<or> (\<exists>y. current_chunk @ para @ nl @ nl = y @ nl @ nl)"
    by (metis append.assoc)
  have 2: "rest \<noteq> [] \<or> (\<exists>y. para @ nl @ nl = y @ nl @ nl)"
    by blast
  show ?case
  proof (cases "int (length (current_chunk @ para)) < chunk_size")
    case True
    with Cons.prems(1) have "split_loop filename chunk_size rest
        (chunks, current_chunk @ para @ nl @ nl, n) = (chunks', current', n')"
      by simp
    from Cons.IH [OF this 1] show ?thesis .
  next
    case False
    show ?thesis
    proof (cases "strip current_chunk = []")
      case True
      with Cons.prems(1) False have "split_loop filename chunk_size rest
          (chunks, para @ nl @ nl, n) = (chunks', current', n')"
        by simp
      from Cons.IH [OF this 2] show ?thesis .
    next
      case nonempty: False
      with Cons.prems(1) False have "split_loop filename chunk_size rest
          (chunks @ [make_chunk filename n current_chunk], para @ nl @ nl, n + 1)
          = (chunks', current', n')"
        by simp
      from Cons.IH [OF this 2] show ?thesis .
    qed
  qed
qed

lemma strip_append_space:
  assumes "\<And>c. c \<in> set ws \<Longrightarrow> is_space c"
  shows "strip (b @ ws) = strip b"
proof (cases "\<exists>c\<in>set b. \<not> is_space c")
  case True
  then have "dropWhile is_space (b @ ws) = dropWhile is_space b @ ws"
    by (auto intro: dropWhile_append1)
  moreover have "dropWhile is_space (rev ws @ rev (dropWhile is_space b))
      = dropWhile is_space (rev (dropWhile is_space b))"
    by (rule dropWhile_append2) (use assms in auto)
  ultimately show ?thesis
    by (simp add: strip_def)
next
  case False
  then have b: "dropWhile is_space b = []"
    by simp
  from False assms have "\<forall>c\<in>set (b @ ws). is_space c"
    by auto
  then have "dropWhile is_space (b @ ws) = []"
    by (simp only: dropWhile_eq_Nil_conv)
  then show ?thesis
    by (simp only: strip_def b)
qed

lemma strip_separator: "strip (b @ nl @ nl) = strip b"
  by (rule strip_append_space) (auto simp add: nl_def is_space_nl)

lemma split_document_woven:
  "\<exists>gaps. length gaps = length (split_document content filename chunk_size) + 1
     \<and> list_all (list_all is_space) gaps
     \<and> content = weave gaps (map chunk_content (split_document content filename chunk_size))"
proof -
  obtain chunks current_chunk n where loop:
    "split_loop filename chunk_size (split_paragraphs content) ([], [], 0) = (chunks, current_chunk, n)"
    by (cases "split_loop filename chunk_size (split_paragraphs content) ([], [], 0)")
  have "\<exists>gaps. length gaps = length (map chunk_content ([] :: chunk list)) + 1
      \<and> list_all (list_all is_space) gaps \<and> [] = weave gaps (map chunk_content ([] :: chunk list))"
    by (rule exI [of _ "[[]]"]) simp
  from split_loop_woven [OF loop this] obtain pre gaps where
    pre: "pre @ current_chunk = content @ nl @ nl"
    and gaps: "length gaps = length (map chunk_content chunks) + 1"
      "list_all (list_all is_space) gaps" "pre = weave gaps (map chunk_content chunks)"
    by (auto simp add: join_paragraphs)
  from split_loop_separator [OF loop] split_paragraphs_nonempty [of content]
  obtain y where y: "current_chunk = y @ nl @ nl"
    by blast
  with pre have content: "content = pre @ y"
    by simp
  from y have strip: "strip current_chunk = strip y"
    by (simp add: strip_separator)
  show ?thesis
  proof (cases "strip y = []")
    case True
    then have "list_all is_space y"
      by (rule strip_empty)
    from woven_gap [OF gaps this] True strip loop content show ?thesis
      by (simp add: split_document_def)
  next
    case False
    obtain l t where parts: "y = l @ strip y @ t"
      and l: "list_all is_space l" and t: "list_all is_space t"
      using strip_parts [of y] by blast
    from woven_body [OF gaps l t, of "strip y"] parts content
    have "\<exists>gaps'. length gaps' = length (map chunk_content chunks @ [strip y]) + 1
        \<and> list_all (list_all is_space) gaps'
        \<and> content = weave gaps' (map chunk_content chunks @ [strip y])"
      by simp
    with False strip loop show ?thesis
      by (simp add: split_document_def make_chunk_def)
  qed
qed

lemma length_strip: "length (strip s) \<le> length s"
proof -
  have "length (strip s) \<le> length (dropWhile is_space s)"
    using length_dropWhile_le [of is_space "rev (dropWhile is_space s)"] by (simp add: strip_def)
  also have "\<dots> \<le> length s"
    by (rule length_dropWhile_le)
  finally show ?thesis .
qed

lemma largest_bound: "p \<in> set ps \<Longrightarrow> length p \<le> foldr max (map length ps) 0"
  by (induction ps) auto

lemma split_loop_size:
  assumes "split_loop filename chunk_size ps (chunks, current_chunk, n) = (chunks', current', n')"
    and "0 \<le> chunk_size"
    and "\<And>p. p \<in> set ps \<Longrightarrow> length p \<le> M"
    and "int (length (strip current_chunk)) \<le> chunk_size + int M"
    and "\<And>ch. ch \<in> set chunks \<Longrightarrow> int (length (chunk_content ch)) \<le> chunk_size + int M"
  shows "int (length (strip current')) \<le> chunk_size + int M
       \<and> (\<forall>ch\<in>set chunks'. int (length (chunk_content ch)) \<le> chunk_size + int M)"
  using assms
proof (induction ps arbitrary: chunks current_chunk n)
  case Nil
  then show ?case by simp
next
  case (Cons para rest)
  have rest: "\<And>p. p \<in> set rest \<Longrightarrow> length p \<le> M"
    using Cons.prems(3) by simp
  have para: "int (length (strip (para @ nl @ nl))) \<le> chunk_size + int M"
  proof -
    have "length (strip (para @ nl @ nl)) \<le> length para"
      by (simp only: strip_separator length_strip)
    moreover have "length para \<le> M"
      using Cons.prems(3) by simp
    ultimately show ?thesis
      using Cons.prems(2) by linarith
  qed
  show ?case
  proof (cases "int (length (current_chunk @ para)) < chunk_size")
    case True
    with Cons.prems(1) have loop: "split_loop filename chunk_size rest
        (chunks, current_chunk @ para @ nl @ nl, n) = (chunks', current', n')"
      by simp
    have separator: "strip (current_chunk @ para @ nl @ nl) = strip (current_chunk @ para)"
      using strip_separator [of "current_chunk @ para"] by simp
    have "length (strip (current_chunk @ para)) \<le> length (current_chunk @ para)"
      by (rule length_strip)
    with True have "int (length (strip (current_chunk @ para @ nl @ nl))) \<le> chunk_size + int M"
      unfolding separator by linarith
    from Cons.IH [OF loop Cons.prems(2) rest this Cons.prems(5)] show ?thesis .
  next
    case False
    show ?thesis
    proof (cases "strip current_chunk = []")
      case True
      with Cons.prems(1) False have loop: "split_loop filename chunk_size rest
          (chunks, para @ nl @ nl, n) = (chunks', current', n')"
        by simp
      from Cons.IH [OF loop Cons.prems(2) rest para Cons.prems(5)] show ?thesis .
    next
      case nonempty: False
      with Cons.prems(1) False have loop: "split_loop filename chunk_size rest
          (chunks @ [make_chunk filename n current_chunk], para @ nl @ nl, n + 1)
          = (chunks', current', n')"
        by simp
      have "\<And>ch. ch \<in> set (chunks @ [make_chunk filename n current_chunk]) \<Longrightarrow>
          int (length (chunk_content ch)) \<le> chunk_size + int M"
        using Cons.prems(4,5) by (auto simp add: make_chunk_def)
      from Cons.IH [OF loop Cons.prems(2) rest para this] show ?thesis .
    qed
  qed
qed

lemma split_document_size:
  assumes "0 \<le> chunk_size" and "ch \<in> set (split_document content filename chunk_size)"
  shows "int (length (chunk_content ch)) \<le> chunk_size + int (largest_paragraph content)"
proof -
  obtain chunks current_chunk n where loop:
    "split_loop filename chunk_size (split_paragraphs content) ([], [], 0) = (chunks, current_chunk, n)"
    by (cases "split_loop filename chunk_size (split_paragraphs content) ([], [], 0)")
  have "int (length (strip current_chunk)) \<le> chunk_size + int (largest_paragraph content)
       \<and> (\<forall>ch\<in>set chunks. int (length (chunk_content ch))
            \<le> chunk_size + int (largest_paragraph content))"
  proof (rule split_loop_size [OF loop assms(1)])
    fix p assume "p \<in> set (split_paragraphs content)"
    then show "length p \<le> largest_paragraph content"
      unfolding largest_paragraph_def by (rule largest_bound)
  next
    show "int (length (strip [])) \<le> chunk_size + int (largest_paragraph content)"
      using assms(1) by (simp add: strip_def)
  next
    fix ch :: chunk assume "ch \<in> set []"
    then show "int (length (chunk_content ch)) \<le> chunk_size + int (largest_paragraph content)"
      by simp
  qed
  with assms(2) loop show ?thesis
    by (auto simp add: split_document_def make_chunk_def split: if_splits)
qed

text \<open>
  C7, amended. For every document, file name and chunk size: the document is the bodies
  of its chunks, each verbatim and in order, with gaps of whitespace only before, between
  and after them (the whitespace that \<open>strip\<close> removes at the ends of a chunk, the
  separator there included, and the chunks of whitespace only, which are dropped). When the
  chunk size is not negative (it is 500 in the module), no chunk body is longer than the
  chunk size plus the length of the largest paragraph of the document.
\<close>

theorem chunking_invariant:
  "(\<exists>gaps. length gaps = length (split_document content filename chunk_size) + 1
      \<and> list_all (list_all is_space) gaps
      \<and> content = weave gaps (map chunk_content (split_document content filename chunk_size)))
   \<and> (0 \<le> chunk_size \<longrightarrow>
        (\<forall>ch\<in>set (split_document content filename chunk_size).
           int (length (chunk_content ch)) \<le> chunk_size + int (largest_paragraph content)))"
  using split_document_woven [of content filename chunk_size]
  by (simp add: split_document_size)

lemma split_sample: "split_paragraphs sample_document = [''abc def'', '' ghij klm'', ''n'']"
  by (simp add: sample_document_def nl_def)

lemma chunks_sample:
  "map chunk_content (split_document sample_document ''rules.txt'' 10)
     = [''abc def'', ''ghij klm'', ''n'']"
  by (simp add: split_document_def split_sample make_chunk_def strip_def nl_def char_eval
      is_space_nl)

theorem chunking_invariant_witness:
  "map chunk_content (split_document sample_document ''rules.txt'' 10)
     = [''abc def'', ''ghij klm'', ''n'']
   \<and> sample_document
     = weave [[], nl @ nl @ '' '', nl @ nl, []] [''abc def'', ''ghij klm'', ''n'']
   \<and> (\<exists>gaps. length gaps = 4 \<and> list_all (list_all is_space) gaps
         \<and> sample_document = weave gaps [''abc def'', ''ghij klm'', ''n''])
   \<and> list_all (\<lambda>ch. int (length (chunk_content ch)) \<le> 10 + int (largest_paragraph sample_document))
        (split_document sample_document ''rules.txt'' 10)"
proof -
  have "length (map chunk_content (split_document sample_document ''rules.txt'' 10)) = 3"
    by (simp only: chunks_sample) simp
  then have len: "length (split_document sample_document ''rules.txt'' 10) = 3"
    by simp
  have "sample_document
      = weave [[], nl @ nl @ '' '', nl @ nl, []] [''abc def'', ''ghij klm'', ''n'']"
    by (simp add: sample_document_def)
  with chunking_invariant [of sample_document "''rules.txt''" 10]
  show ?thesis
    by (simp add: chunks_sample len list_all_iff)
qed

theorem chunking_invariant_counterexample:
  "map chunk_content (split_document '' a'' ''rules.txt'' 500) = [''a'']
   \<and> concat (map chunk_content (split_document '' a'' ''rules.txt'' 500)) \<noteq> '' a''
   \<and> split_document ''  '' ''rules.txt'' 500 = []"
  by (simp add: split_document_def make_chunk_def strip_def nl_def char_eval is_space_nl)

section \<open>Properties of the KAG module\<close>

























section \<open>Properties of the controller\<close>

lemma slm_format_generated:
  assumes "client_available m" and "generate_openai_response m q = Some t" and "t \<noteq> []"
  shows "slm_format_response now (slm_get_response m q)
       = Inr (t @ nl @ nl @ speech_balloon @ '' *Response generated via '' @ model m @ '' at ''
              @ now @ ''*'')"
  using assms by (simp add: slm_get_response_def slm_format_response_def)

lemma slm_format_fallback:
  "slm_format_response now (slm_fallback q) = Inr (canned_text q)"
  by (simp add: slm_fallback_def slm_format_response_def canned_text_def Let_def)

lemma slm_get_offline: "\<not> client_available m \<Longrightarrow> slm_get_response m q = slm_fallback q"
  by (simp add: slm_get_response_def)

lemma slm_format_total: "\<exists>t. slm_format_response now (slm_get_response m q) = Inr t"
proof (cases "client_available m")
  case False
  then show ?thesis
    by (simp add: slm_get_offline slm_format_fallback)
next
  case True
  show ?thesis
  proof (cases "generate_openai_response m q")
    case None
    with True show ?thesis
      by (simp add: slm_get_response_def slm_format_fallback)
  next
    case (Some t)
    show ?thesis
    proof (cases "t = []")
      case empty: True
      with True Some show ?thesis
        by (simp add: slm_get_response_def slm_format_fallback)
    next
      case False
      from slm_format_generated [OF True Some False] show ?thesis
        by blast
    qed
  qed
qed

lemma slm_success: "success (slm_get_response m q)"
proof (cases "if client_available m then generate_openai_response m q else None")
  case None
  then show ?thesis
    by (simp add: slm_get_response_def slm_fallback_def Let_def)
next
  case (Some t)
  then show ?thesis
    by (cases "t = []") (simp_all add: slm_get_response_def slm_fallback_def Let_def)
qed

lemma invoke_slm:
  assumes "slm_format_response now (slm_get_response (slm_module c) query) = Inr t"
  shows "invoke now c SLM query
       = Inr (True, t, SLM_response (slm_get_response (slm_module c) query))"
  using assms by (simp add: call_module_def slm_object_def slm_success)

lemma route_fallback:
  assumes "\<not> available c (selected_module (analyze_query query))" and "slm_available c"
    and "slm_format_response now (slm_get_response (slm_module c) query) = Inr t"
  shows "route_query now c query
       = \<lparr>cr_success = True, response_text = t, cr_selected_module = SLM,
          routing_analysis = analyze_query query,
          module_response = Some (SLM_response (slm_get_response (slm_module c) query)),
          cr_error = None\<rparr>"
  using assms(1,2) invoke_slm [OF assms(3)]
  by (cases "selected_module (analyze_query query)")
    (simp_all add: route_query_def Let_def del: invoke.simps)

lemma route_available:
  assumes "available c (selected_module (analyze_query query))"
    and "invoke now c (selected_module (analyze_query query)) query = Inr (ok, formatted, reply)"
  shows "route_query now c query
       = \<lparr>cr_success = ok, response_text = formatted,
          cr_selected_module = selected_module (analyze_query query),
          routing_analysis = analyze_query query,
          module_response = Some reply, cr_error = None\<rparr>"
  using assms
  by (cases "selected_module (analyze_query query)")
    (simp_all add: route_query_def Let_def del: invoke.simps)

lemma route_nothing:
  assumes "\<not> available c (selected_module (analyze_query query))" and "\<not> slm_available c"
  shows "\<not> cr_success (route_query now c query)
       \<and> cr_selected_module (route_query now c query) = selected_module (analyze_query query)
       \<and> module_response (route_query now c query)
           = Some (Controller_response no_modules_available)"
  using assms
  by (cases "selected_module (analyze_query query)")
    (simp_all add: route_query_def Let_def del: invoke.simps)

text \<open>
  C3, amended. For every query, every state of the controller and every behaviour of its
  modules: if the module that the router picks is not available and the SLM module is,
  \<open>route_query\<close> answers with the response of the SLM module, reports success and gives
  \<open>SLM\<close> as the selected module (no value \<open>fallback\<close> exists); the text is the one
  that the SLM module formats, which is the text of its table for the query when its client
  is not available. If the picked module is available, its response is returned as it is,
  with whatever success it reports: a response that failed is not replaced. If neither the
  picked module nor the SLM module is available, the answer reports no success.
\<close>

theorem fallback_on_unavailable:
  "(\<not> available c (selected_module (analyze_query query)) \<and> slm_available c \<longrightarrow>
      cr_success (route_query now c query)
      \<and> name_of_module (cr_selected_module (route_query now c query)) = ''SLM''
      \<and> module_response (route_query now c query)
          = Some (SLM_response (slm_get_response (slm_module c) query))
      \<and> slm_format_response now (slm_get_response (slm_module c) query)
          = Inr (response_text (route_query now c query))
      \<and> (\<not> client_available (slm_module c) \<longrightarrow>
            response_text (route_query now c query) = canned_text query))
   \<and> (available c (selected_module (analyze_query query))
      \<and> invoke now c (selected_module (analyze_query query)) query = Inr (ok, formatted, reply)
      \<longrightarrow> cr_success (route_query now c query) = ok
          \<and> response_text (route_query now c query) = formatted
          \<and> cr_selected_module (route_query now c query) = selected_module (analyze_query query)
          \<and> module_response (route_query now c query) = Some reply)
   \<and> (\<not> available c (selected_module (analyze_query query)) \<and> \<not> slm_available c \<longrightarrow>
        \<not> cr_success (route_query now c query)
        \<and> cr_selected_module (route_query now c query) = selected_module (analyze_query query)
        \<and> module_response (route_query now c query)
            = Some (Controller_response no_modules_available))"
proof (intro conjI impI)
  assume a: "\<not> available c (selected_module (analyze_query query)) \<and> slm_available c"
  obtain t where t: "slm_format_response now (slm_get_response (slm_module c) query) = Inr t"
    using slm_format_total by blast
  from a have r: "route_query now c query
       = \<lparr>cr_success = True, response_text = t, cr_selected_module = SLM,
          routing_analysis = analyze_query query,
          module_response = Some (SLM_response (slm_get_response (slm_module c) query)),
          cr_error = None\<rparr>"
    using route_fallback [OF _ _ t] by blast
  show "cr_success (route_query now c query)"
    by (simp add: r)
  show "name_of_module (cr_selected_module (route_query now c query)) = ''SLM''"
    by (simp add: r)
  show "module_response (route_query now c query)
      = Some (SLM_response (slm_get_response (slm_module c) query))"
    by (simp add: r)
  show "slm_format_response now (slm_get_response (slm_module c) query)
      = Inr (response_text (route_query now c query))"
    by (simp add: r t)
  assume "\<not> client_available (slm_module c)"
  with t have "t = canned_text query"
    by (simp add: slm_get_offline slm_format_fallback)
  then show "response_text (route_query now c query) = canned_text query"
    by (simp add: r)
next
  assume a: "available c (selected_module (analyze_query query))
      \<and> invoke now c (selected_module (analyze_query query)) query = Inr (ok, formatted, reply)"
  then have r: "route_query now c query
       = \<lparr>cr_success = ok, response_text = formatted,
          cr_selected_module = selected_module (analyze_query query),
          routing_analysis = analyze_query query,
          module_response = Some reply, cr_error = None\<rparr>"
    using route_available by blast
  show "cr_success (route_query now c query) = ok"
    by (simp add: r)
  show "response_text (route_query now c query) = formatted"
    by (simp add: r)
  show "cr_selected_module (route_query now c query) = selected_module (analyze_query query)"
    by (simp add: r)
  show "module_response (route_query now c query) = Some reply"
    by (simp add: r)
next
  assume a: "\<not> available c (selected_module (analyze_query query)) \<and> \<not> slm_available c"
  then have r: "\<not> cr_success (route_query now c query)
       \<and> cr_selected_module (route_query now c query) = selected_module (analyze_query query)
       \<and> module_response (route_query now c query)
           = Some (Controller_response no_modules_available)"
    using route_nothing by blast
  from r show "\<not> cr_success (route_query now c query)"
    by simp
  from r show "cr_selected_module (route_query now c query) = selected_module (analyze_query query)"
    by simp
  from r show "module_response (route_query now c query)
      = Some (Controller_response no_modules_available)"
    by simp
qed

lemma selected_new_fire: "selected_module (analyze_query ''new fire'') = CAG"
  by (simp add: selected_analyze scores_new_fire Let_def)

lemma classify_new_fire: "classify_query_type ''new fire'' = ''default''"
  by (simp add: classify_query_type_def lower_new_fire Let_def)

lemma search_new_fire: "search_cache \<lparr>cache_data = civic_cache\<rparr> ''new fire'' = None"
  by (simp add: search_cache_def lower_new_fire emergency_gate_def government_gate_def
      civic_gate_def zone_gate_def quick_gate_def)

lemma invoke_new_fire:
  "invoke now with_cache CAG ''new fire''
     = Inr (False,
            ''I couldn'' @ apostrophe @ ''t find that information in my cache. ''
              @ ''Let me search other sources for you.'',
            CAG_response (cag_get_response \<lparr>cache_data = civic_cache\<rparr> ''new fire''))"
  by (simp add: with_cache_def slm_only_def cag_object_def call_module_def cag_get_response_def
      search_new_fire cag_format_response_def)

theorem fallback_on_unavailable_witness:
  "selected_module (analyze_query ''new fire'') = CAG
   \<and> classify_query_type ''new fire'' = ''default''
   \<and> cr_success (route_query ''12:00:00'' slm_only ''new fire'')
   \<and> cr_selected_module (route_query ''12:00:00'' slm_only ''new fire'') = SLM
   \<and> response_text (route_query ''12:00:00'' slm_only ''new fire'') = canned_text ''new fire''
   \<and> \<not> cr_success (route_query ''12:00:00'' with_cache ''new fire'')
   \<and> cr_selected_module (route_query ''12:00:00'' with_cache ''new fire'') = CAG
   \<and> \<not> cr_success (route_query ''12:00:00'' (slm_only\<lparr>slm_available := False\<rparr>) ''new fire'')"
proof -
  have 1: "\<not> available slm_only (selected_module (analyze_query ''new fire''))"
    by (simp add: selected_new_fire slm_only_def)
  have 2: "slm_available slm_only"
    by (simp add: slm_only_def)
  have 3: "\<not> client_available (slm_module slm_only)"
    by (simp add: slm_only_def offline_slm_def)
  from fallback_on_unavailable [of slm_only "''new fire''" "''12:00:00''", THEN conjunct1] 1 2 3
  have a: "cr_success (route_query ''12:00:00'' slm_only ''new fire'')"
    and "name_of_module (cr_selected_module (route_query ''12:00:00'' slm_only ''new fire'')) = ''SLM''"
    and b: "response_text (route_query ''12:00:00'' slm_only ''new fire'') = canned_text ''new fire''"
    by blast+
  then have c: "cr_selected_module (route_query ''12:00:00'' slm_only ''new fire'') = SLM"
    by (cases "cr_selected_module (route_query ''12:00:00'' slm_only ''new fire'')") simp_all
  have 4: "available with_cache (selected_module (analyze_query ''new fire''))"
    by (simp add: selected_new_fire with_cache_def)
  have 5: "invoke ''12:00:00'' with_cache (selected_module (analyze_query ''new fire'')) ''new fire''
     = Inr (False,
            ''I couldn'' @ apostrophe @ ''t find that information in my cache. ''
              @ ''Let me search other sources for you.'',
            CAG_response (cag_get_response \<lparr>cache_data = civic_cache\<rparr> ''new fire''))"
    by (simp only: selected_new_fire invoke_new_fire)
  from fallback_on_unavailable [where c = with_cache and query = "''new fire''"
      and now = "''12:00:00''", THEN conjunct2, THEN conjunct1, rule_format, OF conjI, OF 4 5]
  have d: "\<not> cr_success (route_query ''12:00:00'' with_cache ''new fire'')"
    and e: "cr_selected_module (route_query ''12:00:00'' with_cache ''new fire'') = CAG"
    by (simp_all add: selected_new_fire)
  have 6: "\<not> available (slm_only\<lparr>slm_available := False\<rparr>)
      (selected_module (analyze_query ''new fire''))"
    by (simp add: selected_new_fire slm_only_def)
  have 7: "\<not> slm_available (slm_only\<lparr>slm_available := False\<rparr>)"
    by simp
  from fallback_on_unavailable [where c = "slm_only\<lparr>slm_available := False\<rparr>"
      and query = "''new fire''" and now = "''12:00:00''", THEN conjunct2, THEN conjunct2] 6 7
  have f: "\<not> cr_success (route_query ''12:00:00'' (slm_only\<lparr>slm_available := False\<rparr>) ''new fire'')"
    by blast
  from a b c d e f show ?thesis
    by (simp add: selected_new_fire classify_new_fire)
qed

theorem fallback_on_unavailable_counterexample:
  "selected_module (analyze_query ''new fire'') = CAG
   \<and> \<not> available slm_only CAG
   \<and> cr_success (route_query ''12:00:00'' slm_only ''new fire'')
   \<and> name_of_module (cr_selected_module (route_query ''12:00:00'' slm_only ''new fire'')) = ''SLM''
   \<and> name_of_module (cr_selected_module (route_query ''12:00:00'' slm_only ''new fire''))
       \<noteq> ''fallback''
   \<and> available with_cache CAG
   \<and> \<not> success (cag_get_response \<lparr>cache_data = civic_cache\<rparr> ''new fire'')
   \<and> module_response (route_query ''12:00:00'' with_cache ''new fire'')
       = Some (CAG_response (cag_get_response \<lparr>cache_data = civic_cache\<rparr> ''new fire''))
   \<and> \<not> cr_success (route_query ''12:00:00'' with_cache ''new fire'')
   \<and> cr_selected_module (route_query ''12:00:00'' with_cache ''new fire'') = CAG
   \<and> response_text (route_query ''12:00:00'' with_cache ''new fire'')
       = ''I couldn'' @ apostrophe @ ''t find that information in my cache. ''
         @ ''Let me search other sources for you.''"
proof -
  have 1: "\<not> available slm_only (selected_module (analyze_query ''new fire''))"
    by (simp add: selected_new_fire slm_only_def)
  have 2: "slm_available slm_only"
    by (simp add: slm_only_def)
  have 3: "slm_format_response ''12:00:00'' (slm_get_response (slm_module slm_only) ''new fire'')
      = Inr (canned_text ''new fire'')"
    by (simp add: slm_only_def offline_slm_def slm_get_offline slm_format_fallback)
  have 4: "available with_cache (selected_module (analyze_query ''new fire''))"
    by (simp add: selected_new_fire with_cache_def)
  have 5: "invoke ''12:00:00'' with_cache (selected_module (analyze_query ''new fire'')) ''new fire''
     = Inr (False,
            ''I couldn'' @ apostrophe @ ''t find that information in my cache. ''
              @ ''Let me search other sources for you.'',
            CAG_response (cag_get_response \<lparr>cache_data = civic_cache\<rparr> ''new fire''))"
    by (simp only: selected_new_fire invoke_new_fire)
  have 6: "\<not> success (cag_get_response \<lparr>cache_data = civic_cache\<rparr> ''new fire'')"
    by (simp add: cag_get_response_def search_new_fire)
  from 1 4 6 show ?thesis
    by (simp add: route_fallback [OF 1 2 3] route_available [OF 4 5] selected_new_fire)
qed

end
